theory Spec2Isabelle
  imports Complex_Main
begin

section \<open>Data model\<close>

text \<open>
  The repositories of \<^verbatim>\<open>repositories.py\<close> are stateless operators over a storage
  handle. The handle is modelled as a record of the four tables, each a list of rows in
  storage order, together with the connection's last-insert-rowid register. Every
  repository method becomes a function that takes the database state and returns the
  new one (for the mutating methods) and the method's result; a Python exception is a
  value of type \<open>error\<close> on the left of a sum. There is one connection and every
  mutating method commits after its single statement, so \<^verbatim>\<open>commit()\<close> changes nothing
  that a later call can observe and is left out.

  Calendar dates are triples of year, month and day. The repositories write a date as
  ISO text \<^verbatim>\<open>YYYY-MM-DD\<close> (function \<^verbatim>\<open>_iso\<close>) and read it back with
  \<^verbatim>\<open>date.fromisoformat\<close>; a date column therefore holds the triple itself, and
  SQL NULL is \<open>None\<close>. Grades and sums of credits are exact rationals: rounding of
  binary floating point is outside this model.
\<close>

record date =
  year :: int
  month :: int
  day :: int

datatype error = ValidationError | RuntimeError | ValueError

text \<open>
  Modelled from the spec: the domain records of \<^verbatim>\<open>models.py\<close>, which is not part of
  the examined sources. Fields and optionality follow section 3 of the specification
  and the attribute accesses of the repositories.
\<close>

record Student =
  vorname :: string
  nachname :: string
  matrikelnummer :: string
  geburtsdatum :: "date option"
  adresse :: "string option"

record Studiengang =
  name :: string
  start_datum :: date
  soll_studiensemester :: "int option"
  soll_durchschnittsnote :: rat

record ModulBelegung =
  belegung_id :: "int option"
  studiengang_id :: int
  modul_id :: int
  plan_semester_nr :: int
  ist_semester_nr :: "int option"
  soll_bestanden_am :: "date option"
  ist_bestanden_am :: "date option"
  soll_note :: "rat option"
  ist_note :: "rat option"
  anzahl_versuche :: int

text \<open>
  Modelled from the spec: the storage schema of \<^verbatim>\<open>db.py\<close> (section 6 of the
  specification). A row record carries the columns of its table; the prefix is the
  alias the queries use (\<^verbatim>\<open>mb\<close> for \<^verbatim>\<open>modul_belegung\<close>, \<^verbatim>\<open>m\<close> for \<^verbatim>\<open>modul\<close>).
\<close>

record student_row =
  st_student_id :: int
  st_vorname :: string
  st_nachname :: string
  st_matrikelnummer :: string
  st_geburtsdatum :: "date option"
  st_adresse :: "string option"

record studiengang_row =
  sg_studiengang_id :: int
  sg_student_id :: int
  sg_name :: string
  sg_start_datum :: date
  sg_soll_studiensemester :: "int option"
  sg_soll_durchschnittsnote :: rat

record modul_row =
  m_modul_id :: int
  m_titel :: string
  m_ects :: int
  m_plan_semester_nr :: int
  m_default_soll_bestanden_am :: "date option"

record belegung_row =
  mb_belegung_id :: int
  mb_studiengang_id :: int
  mb_modul_id :: int
  mb_plan_semester_nr :: int
  mb_ist_semester_nr :: "int option"
  mb_soll_bestanden_am :: "date option"
  mb_ist_bestanden_am :: "date option"
  mb_soll_note :: "rat option"
  mb_ist_note :: "rat option"
  mb_anzahl_versuche :: int

record database =
  student :: "student_row list"
  studiengang :: "studiengang_row list"
  modul :: "modul_row list"
  modul_belegung :: "belegung_row list"
  last_insert_rowid :: int

definition empty_database :: database where
  "empty_database =
     \<lparr>student = [], studiengang = [], modul = [], modul_belegung = [],
      last_insert_rowid = 0\<rparr>"

text \<open>\<^verbatim>\<open>_iso(d)\<close>: the stored form of an optional date (\<open>None\<close> stays NULL).\<close>

definition iso :: "date option \<Rightarrow> date option" where
  "iso d = (case d of Some x \<Rightarrow> Some x | None \<Rightarrow> None)"

section \<open>StudentRepository\<close>

text \<open>
  Modelled from the spec: the storage engine behind \<^verbatim>\<open>DatabaseProtocol\<close>, whose adapter
  \<^verbatim>\<open>db.py\<close> is not part of the examined sources. Section 4.1 of the specification and
  \<^verbatim>\<open>db_protocol.py\<close> describe an embedded SQL database whose cursor exposes the id of the
  last inserted row. The statements of the repositories are read over the tables as such
  an engine executes them: an inner join is a nested loop, WHERE a filter, SUM and MAX
  are NULL over no rows, ORDER BY is a sort and LIMIT a prefix. A row inserted without
  an explicit key gets one more than the largest key in use, and 1 in an empty table.
\<close>

definition next_rowid :: "int list \<Rightarrow> int" where
  "next_rowid ids = (if ids = [] then 1 else fold max ids 0 + 1)"

text \<open>
  The statement of \<^verbatim>\<open>upsert\<close>:
  \<^verbatim>\<open>INSERT INTO student(...) VALUES (?,?,?,?,?) ON CONFLICT(matrikelnummer) DO UPDATE SET
  vorname=excluded.vorname, nachname=excluded.nachname,
  geburtsdatum=excluded.geburtsdatum, adresse=excluded.adresse\<close>.
  It returns the new state and the cursor's \<^verbatim>\<open>lastrowid\<close>. The DB-API cursor reads
  \<^verbatim>\<open>lastrowid\<close> from the connection's last-insert-rowid register after the statement;
  only a row that is really inserted writes that register, the DO UPDATE branch leaves
  it as it was.
\<close>

definition upsert_set :: "Student \<Rightarrow> student_row \<Rightarrow> student_row" where
  "upsert_set s r =
     r\<lparr>st_vorname := vorname s, st_nachname := nachname s,
       st_geburtsdatum := iso (geburtsdatum s), st_adresse := adresse s\<rparr>"

definition exec_upsert :: "database \<Rightarrow> Student \<Rightarrow> database \<times> int option" where
  "exec_upsert db s =
     (if list_ex (\<lambda>r. st_matrikelnummer r = matrikelnummer s) (student db)
      then (db\<lparr>student :=
                  map (\<lambda>r. if st_matrikelnummer r = matrikelnummer s then upsert_set s r else r)
                    (student db)\<rparr>,
            Some (last_insert_rowid db))
      else
        (let i = next_rowid (map st_student_id (student db))
         in (db\<lparr>student := student db @
                    [\<lparr>st_student_id = i, st_vorname = vorname s, st_nachname = nachname s,
                      st_matrikelnummer = matrikelnummer s,
                      st_geburtsdatum = iso (geburtsdatum s), st_adresse = adresse s\<rparr>],
                 last_insert_rowid := i\<rparr>,
             Some i)))"

text \<open>Python truth of \<^verbatim>\<open>getattr(cursor, "lastrowid", None)\<close>: neither None nor 0.\<close>

definition usable_rowid :: "int option \<Rightarrow> bool" where
  "usable_rowid l = (case l of None \<Rightarrow> False | Some i \<Rightarrow> i \<noteq> 0)"

text \<open>\<^verbatim>\<open>SELECT student_id FROM student WHERE matrikelnummer=?\<close>, then \<^verbatim>\<open>fetchone()\<close>.\<close>

definition select_student_id :: "database \<Rightarrow> string \<Rightarrow> int option" where
  "select_student_id db mnr =
     (case filter (\<lambda>r. st_matrikelnummer r = mnr) (student db) of
        [] \<Rightarrow> None
      | r # _ \<Rightarrow> Some (st_student_id r))"

definition upsert :: "database \<Rightarrow> Student \<Rightarrow> database \<times> (error + int)" where
  "upsert db s =
     (let (db', lastrowid) = exec_upsert db s
      in if usable_rowid lastrowid then (db', Inr (the lastrowid))
         else (case select_student_id db' (matrikelnummer s) of
                 None \<Rightarrow> (db', Inl RuntimeError)
               | Some i \<Rightarrow> (db', Inr i)))"

section \<open>StudiengangRepository\<close>

text \<open>
  \<^verbatim>\<open>SELECT * FROM studiengang WHERE student_id=? ORDER BY studiengang_id DESC LIMIT 1\<close>,
  then \<^verbatim>\<open>fetchone()\<close> and the mapping of the row into a \<^verbatim>\<open>Studiengang\<close>.
\<close>

definition get_latest_for_student :: "database \<Rightarrow> int \<Rightarrow> (int \<times> Studiengang) option" where
  "get_latest_for_student db sid =
     (case take 1 (rev (sort_key sg_studiengang_id
                      (filter (\<lambda>r. sg_student_id r = sid) (studiengang db)))) of
        [] \<Rightarrow> None
      | row # _ \<Rightarrow>
          Some (sg_studiengang_id row,
                \<lparr>name = sg_name row, start_datum = sg_start_datum row,
                 soll_studiensemester = sg_soll_studiensemester row,
                 soll_durchschnittsnote = sg_soll_durchschnittsnote row\<rparr>))"

section \<open>ModulBelegungRepository: update and delete\<close>

text \<open>
  \<^verbatim>\<open>UPDATE modul_belegung SET modul_id=?, ... WHERE studiengang_id=? AND belegung_id=?\<close>
  after the check that \<^verbatim>\<open>belegung_id\<close> is set.
\<close>

definition update_set :: "ModulBelegung \<Rightarrow> belegung_row \<Rightarrow> belegung_row" where
  "update_set b r =
     r\<lparr>mb_modul_id := modul_id b, mb_plan_semester_nr := plan_semester_nr b,
       mb_ist_semester_nr := ist_semester_nr b,
       mb_soll_bestanden_am := iso (soll_bestanden_am b),
       mb_ist_bestanden_am := iso (ist_bestanden_am b),
       mb_soll_note := soll_note b, mb_ist_note := ist_note b,
       mb_anzahl_versuche := anzahl_versuche b\<rparr>"

definition update :: "database \<Rightarrow> ModulBelegung \<Rightarrow> error + database" where
  "update db b =
     (case belegung_id b of
        None \<Rightarrow> Inl ValueError
      | Some i \<Rightarrow>
          Inr (db\<lparr>modul_belegung :=
                 map (\<lambda>r. if mb_studiengang_id r = studiengang_id b \<and> mb_belegung_id r = i
                          then update_set b r else r)
                   (modul_belegung db)\<rparr>))"

text \<open>\<^verbatim>\<open>DELETE FROM modul_belegung WHERE studiengang_id=? AND belegung_id=?\<close>.\<close>

definition delete :: "database \<Rightarrow> int \<Rightarrow> int \<Rightarrow> database" where
  "delete db sg i =
     db\<lparr>modul_belegung :=
          filter (\<lambda>r. \<not> (mb_studiengang_id r = sg \<and> mb_belegung_id r = i))
            (modul_belegung db)\<rparr>"

section \<open>ModulBelegungRepository: KPI queries\<close>

text \<open>
  \<^verbatim>\<open>FROM modul_belegung mb JOIN modul m ON m.modul_id = mb.modul_id WHERE mb.studiengang_id=?\<close>:
  the inner join shared by the KPI queries, as a nested loop over both tables.
\<close>

definition join_modul :: "database \<Rightarrow> int \<Rightarrow> (belegung_row \<times> modul_row) list" where
  "join_modul db sg =
     [(mb, m). mb \<leftarrow> modul_belegung db, m \<leftarrow> modul db,
               m_modul_id m = mb_modul_id mb, mb_studiengang_id mb = sg]"

text \<open>The aggregate \<^verbatim>\<open>SUM\<close>: NULL over no rows, the sum otherwise.\<close>

definition sql_sum :: "'a::comm_monoid_add list \<Rightarrow> 'a option" where
  "sql_sum xs = (if xs = [] then None else Some (sum_list xs))"

text \<open>
  \<^verbatim>\<open>SELECT COALESCE(SUM(m.ects),0) AS ects ... AND mb.ist_bestanden_am IS NOT NULL\<close>,
  returned as \<^verbatim>\<open>float(row["ects"])\<close>.
\<close>

definition sum_ects_completed :: "database \<Rightarrow> int \<Rightarrow> rat" where
  "sum_ects_completed db sg =
     (let ects = sql_sum [m_ects m. (mb, m) \<leftarrow> join_modul db sg, mb_ist_bestanden_am mb \<noteq> None]
      in of_int (case ects of None \<Rightarrow> 0 | Some e \<Rightarrow> e))"

text \<open>
  \<^verbatim>\<open>SELECT SUM(m.ects * mb.ist_note) AS wsum, SUM(m.ects) AS ects ... AND mb.ist_note IS NOT NULL\<close>;
  the method returns None when \<^verbatim>\<open>row["ects"] in (None, 0)\<close> and
  \<^verbatim>\<open>float(row["wsum"]) / float(row["ects"])\<close> otherwise.
\<close>

definition avg_grade_weighted :: "database \<Rightarrow> int \<Rightarrow> rat option" where
  "avg_grade_weighted db sg =
     (let graded = filter (\<lambda>(mb, m). mb_ist_note mb \<noteq> None) (join_modul db sg);
          wsum = sql_sum [of_int (m_ects m) * g. (mb, m) \<leftarrow> graded, Some g \<leftarrow> [mb_ist_note mb]];
          ects = sql_sum [m_ects m. (mb, m) \<leftarrow> graded]
      in case (wsum, ects) of
           (Some w, Some e) \<Rightarrow> if e = 0 then None else Some (w / of_int e)
         | _ \<Rightarrow> None)"

section \<open>ModulBelegungRepository: the latest enrollment of every module\<close>

record plot_row =
  pr_modul_id :: int
  pr_titel :: string
  pr_ects :: int
  pr_soll_note :: "rat option"
  pr_ist_note :: "rat option"
  pr_soll_bestanden_am :: "date option"
  pr_ist_bestanden_am :: "date option"
  pr_delta_days :: "int option"

text \<open>The aggregate \<^verbatim>\<open>MAX\<close>: NULL over no rows.\<close>

definition sql_max :: "int list \<Rightarrow> int option" where
  "sql_max xs = (case xs of [] \<Rightarrow> None | x # r \<Rightarrow> Some (fold max r x))"

text \<open>
  The common table expression
  \<^verbatim>\<open>SELECT MAX(belegung_id) AS last_id, modul_id FROM modul_belegung WHERE studiengang_id=?
  GROUP BY modul_id\<close>: one pair (last_id, modul_id) for every module id among the
  program's rows.
\<close>

definition latest :: "database \<Rightarrow> int \<Rightarrow> (int option \<times> int) list" where
  "latest db sg =
     (let rows = filter (\<lambda>b. mb_studiengang_id b = sg) (modul_belegung db)
      in map (\<lambda>mid. (sql_max [mb_belegung_id b. b \<leftarrow> rows, mb_modul_id b = mid], mid))
           (remdups (map mb_modul_id rows)))"

text \<open>
  The engine's \<^verbatim>\<open>julianday\<close> of a calendar date (the Julian day number at midnight),
  by the integer formula of SQLite's date routines. Its integer divisions truncate; the
  dividends are not negative for the years 0 to 9999 that the engine accepts.
\<close>

definition julianday :: "date \<Rightarrow> rat" where
  "julianday dt =
     (let Y = (if month dt \<le> 2 then year dt - 1 else year dt);
          M = (if month dt \<le> 2 then month dt + 12 else month dt);
          A = Y div 100;
          B = 2 - A + A div 4;
          X1 = 36525 * (Y + 4716) div 100;
          X2 = 306001 * (M + 1) div 10000
      in of_int (X1 + X2 + day dt + B) - 3049 / 2)"

text \<open>\<^verbatim>\<open>CAST(x AS INTEGER)\<close> of a number: truncation towards zero.\<close>

definition cast_integer :: "rat \<Rightarrow> int" where
  "cast_integer x = (if 0 \<le> x then \<lfloor>x\<rfloor> else \<lceil>x\<rceil>)"

text \<open>
  \<^verbatim>\<open>CASE WHEN mb.soll_bestanden_am IS NOT NULL AND mb.ist_bestanden_am IS NOT NULL
  THEN CAST((julianday(mb.ist_bestanden_am) - julianday(mb.soll_bestanden_am)) AS INTEGER)
  ELSE NULL END\<close>
\<close>

definition delta_days :: "date option \<Rightarrow> date option \<Rightarrow> int option" where
  "delta_days soll ist =
     (case soll of
        None \<Rightarrow> None
      | Some s \<Rightarrow> (case ist of None \<Rightarrow> None
                   | Some i \<Rightarrow> Some (cast_integer (julianday i - julianday s))))"

text \<open>The projection of the final SELECT.\<close>

definition select_plot_row :: "belegung_row \<times> modul_row \<Rightarrow> plot_row" where
  "select_plot_row = (\<lambda>(mb, m).
     \<lparr>pr_modul_id = mb_modul_id mb, pr_titel = m_titel m, pr_ects = m_ects m,
      pr_soll_note = mb_soll_note mb, pr_ist_note = mb_ist_note mb,
      pr_soll_bestanden_am = mb_soll_bestanden_am mb,
      pr_ist_bestanden_am = mb_ist_bestanden_am mb,
      pr_delta_days = delta_days (mb_soll_bestanden_am mb) (mb_ist_bestanden_am mb)\<rparr>)"

text \<open>
  \<^verbatim>\<open>FROM latest l JOIN modul_belegung mb ON mb.belegung_id = l.last_id
  JOIN modul m ON m.modul_id = mb.modul_id ORDER BY m.modul_id ASC\<close>
\<close>

definition latest_join :: "database \<Rightarrow> int \<Rightarrow> (belegung_row \<times> modul_row) list" where
  "latest_join db sg =
     [(mb, m). l \<leftarrow> latest db sg, mb \<leftarrow> modul_belegung db, Some (mb_belegung_id mb) = fst l,
               m \<leftarrow> modul db, m_modul_id m = mb_modul_id mb]"

definition plot_latest_per_module :: "database \<Rightarrow> int \<Rightarrow> plot_row list" where
  "plot_latest_per_module db sg =
     map select_plot_row (sort_key (\<lambda>(mb, m). m_modul_id m) (latest_join db sg))"

section \<open>The calendar\<close>

text \<open>
  The proleptic Gregorian calendar of Python's \<^verbatim>\<open>date\<close>: which triples are dates, and
  the number of a day counted from 0001-01-01 as day 1. The day number is the sum of the
  lengths of the years and of the months before the date; the difference of two day
  numbers is the signed number of whole days from one date to the other.
\<close>

definition is_leap :: "int \<Rightarrow> bool" where
  "is_leap y = (y mod 4 = 0 \<and> (y mod 100 \<noteq> 0 \<or> y mod 400 = 0))"

definition days_in_year :: "int \<Rightarrow> int" where
  "days_in_year y = (if is_leap y then 366 else 365)"

definition days_in_month :: "int \<Rightarrow> int \<Rightarrow> int" where
  "days_in_month y m =
     (if m = 2 then (if is_leap y then 29 else 28)
      else if m = 4 \<or> m = 6 \<or> m = 9 \<or> m = 11 then 30 else 31)"

definition valid_date :: "date \<Rightarrow> bool" where
  "valid_date d =
     (1 \<le> year d \<and> year d \<le> 9999 \<and> 1 \<le> month d \<and> month d \<le> 12 \<and>
      1 \<le> day d \<and> day d \<le> days_in_month (year d) (month d))"

definition day_number :: "date \<Rightarrow> int" where
  "day_number d =
     sum_list (map days_in_year [1 .. year d - 1])
     + sum_list (map (days_in_month (year d)) [1 .. month d - 1])
     + day d"

section \<open>Validation: parse_date\<close>

text \<open>
  \<^verbatim>\<open>parse_date\<close> of \<^verbatim>\<open>validation.py\<close> strips its input and hands it to
  \<^verbatim>\<open>datetime.strptime\<close> with three formats in turn. The library function is modelled
  as the standard library implements it: the format is turned into a regular expression
  with one named group for each directive, the expression is matched against the
  beginning of the input by backtracking, the match has to consume the whole input, and
  the captured groups are converted to the fields of a date, which has to exist in the
  calendar. Strings are byte strings here, so only ASCII digits and ASCII whitespace are
  recognised.
\<close>

text \<open>\<^verbatim>\<open>str.strip()\<close>: whitespace is removed at both ends.\<close>

definition is_space :: "char \<Rightarrow> bool" where
  "is_space c = (c \<in> set [CHR '' '', CHR 0x09, CHR 0x0A, CHR 0x0B, CHR 0x0C, CHR 0x0D,
                           CHR 0x1C, CHR 0x1D, CHR 0x1E, CHR 0x1F])"

definition strip :: "string \<Rightarrow> string" where
  "strip s = rev (dropWhile is_space (rev (dropWhile is_space s)))"

text \<open>
  Regular expressions, as far as the directives need them. A match returns the text it
  consumed, the groups it captured and the rest of the input; \<open>rmatch\<close> lists all
  matches at the beginning of the input in the order in which backtracking tries them
  (the alternatives of \<open>Alt\<close> from left to right).
\<close>

datatype regex =
    Eps
  | Chr char
  | Range char char
  | Seq regex regex
  | Alt regex regex
  | Group char regex

type_synonym rmatch_result = "string \<times> (char \<times> string) list \<times> string"

fun rmatch :: "regex \<Rightarrow> string \<Rightarrow> rmatch_result list" where
  "rmatch Eps s = [([], [], s)]"
| "rmatch (Chr c) s = (case s of [] \<Rightarrow> [] | x # r \<Rightarrow> if x = c then [([x], [], r)] else [])"
| "rmatch (Range lo hi) s =
     (case s of
        [] \<Rightarrow> []
      | x # r \<Rightarrow> if (of_char lo :: nat) \<le> of_char x \<and> (of_char x :: nat) \<le> of_char hi
                 then [([x], [], r)] else [])"
| "rmatch (Seq a b) s =
     concat (map (\<lambda>(t1, g1, r1). map (\<lambda>(t2, g2, r2). (t1 @ t2, g1 @ g2, r2)) (rmatch b r1))
               (rmatch a s))"
| "rmatch (Alt a b) s = rmatch a s @ rmatch b s"
| "rmatch (Group k a) s = map (\<lambda>(t, g, r). (t, (k, t) # g, r)) (rmatch a s)"

text \<open>
  The expressions of the directives:
  \<^verbatim>\<open>'d': (?P<d>3[0-1]|[1-2]\d|0[1-9]|[1-9]| [1-9])\<close>,
  \<^verbatim>\<open>'m': (?P<m>1[0-2]|0[1-9]|[1-9])\<close>,
  \<^verbatim>\<open>'y': (?P<y>\d\d)\<close> and \<^verbatim>\<open>'Y': (?P<Y>\d\d\d\d)\<close>.
\<close>

definition re_digit :: regex where
  "re_digit = Range CHR ''0'' CHR ''9''"

definition re_d :: regex where
  "re_d = Alt (Seq (Chr CHR ''3'') (Range CHR ''0'' CHR ''1''))
         (Alt (Seq (Range CHR ''1'' CHR ''2'') re_digit)
         (Alt (Seq (Chr CHR ''0'') (Range CHR ''1'' CHR ''9''))
         (Alt (Range CHR ''1'' CHR ''9'')
              (Seq (Chr CHR '' '') (Range CHR ''1'' CHR ''9'')))))"

definition re_m :: regex where
  "re_m = Alt (Seq (Chr CHR ''1'') (Range CHR ''0'' CHR ''2''))
         (Alt (Seq (Chr CHR ''0'') (Range CHR ''1'' CHR ''9''))
              (Range CHR ''1'' CHR ''9''))"

definition re_y :: regex where
  "re_y = Seq re_digit re_digit"

definition re_Y :: regex where
  "re_Y = Seq re_digit (Seq re_digit (Seq re_digit re_digit))"

definition directive :: "char \<Rightarrow> regex option" where
  "directive k =
     (if k = CHR ''d'' then Some (Group k re_d)
      else if k = CHR ''m'' then Some (Group k re_m)
      else if k = CHR ''y'' then Some (Group k re_y)
      else if k = CHR ''Y'' then Some (Group k re_Y)
      else None)"

text \<open>
  The expression of a format: a directive stands for its group, any other character for
  itself. A stray \<^verbatim>\<open>%\<close> or a directive outside the four above gives no expression (the
  library raises ValueError); the formats of \<^verbatim>\<open>parse_date\<close> use no others.
\<close>

fun pattern :: "string \<Rightarrow> regex option" where
  "pattern [] = Some Eps"
| "pattern [c] = (if c = CHR ''%'' then None else Some (Seq (Chr c) Eps))"
| "pattern (c # k # fmt) =
     (if c = CHR ''%''
      then (case directive k of
              None \<Rightarrow> None
            | Some d \<Rightarrow> map_option (Seq d) (pattern fmt))
      else map_option (Seq (Chr c)) (pattern (k # fmt)))"

text \<open>\<^verbatim>\<open>int(s)\<close> of a captured group: decimal digits, whitespace around them ignored.\<close>

definition int_of :: "string \<Rightarrow> int" where
  "int_of s = foldl (\<lambda>n c. 10 * n + (int (of_char c) - 48)) 0 (strip s)"

text \<open>
  The fields a group sets. A two-digit year up to 68 lies in the century 2000, from 69
  on in the century 1900.
\<close>

definition group_value :: "char \<times> string \<Rightarrow> date \<Rightarrow> date" where
  "group_value = (\<lambda>(k, t) d.
     if k = CHR ''y'' then d\<lparr>year := (if int_of t \<le> 68 then int_of t + 2000 else int_of t + 1900)\<rparr>
     else if k = CHR ''Y'' then d\<lparr>year := int_of t\<rparr>
     else if k = CHR ''m'' then d\<lparr>month := int_of t\<rparr>
     else if k = CHR ''d'' then d\<lparr>day := int_of t\<rparr>
     else d)"

text \<open>
  \<^verbatim>\<open>datetime.strptime(data_string, format).date()\<close>; \<open>None\<close> stands for ValueError:
  no match, unconverted data after the match, or a date that does not exist.
\<close>

definition strptime :: "string \<Rightarrow> string \<Rightarrow> date option" where
  "strptime data_string format =
     (case pattern format of
        None \<Rightarrow> None
      | Some re \<Rightarrow>
          (case rmatch re data_string of
             [] \<Rightarrow> None
           | (found, groups, rest) # _ \<Rightarrow>
               if rest \<noteq> [] then None
               else (let d = fold group_value groups \<lparr>year = 1900, month = 1, day = 1\<rparr>
                     in if valid_date d then Some d else None)))"

text \<open>
  The loop \<^verbatim>\<open>for fmt in (...): try: return strptime(t, fmt).date() except ValueError:
  continue\<close>, followed by \<^verbatim>\<open>raise ValidationError(...)\<close>.
\<close>

fun try_formats :: "string \<Rightarrow> string list \<Rightarrow> error + date option" where
  "try_formats t [] = Inl ValidationError"
| "try_formats t (fmt # fmts) =
     (case strptime t fmt of
        Some d \<Rightarrow> Inr (Some d)
      | None \<Rightarrow> try_formats t fmts)"

definition parse_date :: "string \<Rightarrow> error + date option" where
  "parse_date text =
     (let t = strip text
      in if t = [] then Inr None
         else try_formats t [''%Y-%m-%d'', ''%d.%m.%y'', ''%d.%m.%Y''])"

section \<open>Notions used in the statements and proofs\<close>



text \<open>The integer part of \<open>julianday\<close>, before the shift by 1524.5.\<close>

definition jdn :: "date \<Rightarrow> int" where
  "jdn dt =
     (let Y = (if month dt \<le> 2 then year dt - 1 else year dt);
          M = (if month dt \<le> 2 then month dt + 12 else month dt);
          A = Y div 100;
          B = 2 - A + A div 4;
          X1 = 36525 * (Y + 4716) div 100;
          X2 = 306001 * (M + 1) div 10000
      in X1 + X2 + day dt + B)"

text \<open>The \<^verbatim>\<open>Studiengang\<close> object that \<^verbatim>\<open>get_latest_for_student\<close> builds from a row.\<close>

definition studiengang_of :: "studiengang_row \<Rightarrow> Studiengang" where
  "studiengang_of row =
     \<lparr>name = sg_name row, start_datum = sg_start_datum row,
      soll_studiensemester = sg_soll_studiensemester row,
      soll_durchschnittsnote = sg_soll_durchschnittsnote row\<rparr>"

text \<open>
  The credit weight of a module id is the \<^verbatim>\<open>ects\<close> of its catalog row; an enrollment's
  grade is its \<^verbatim>\<open>ist_note\<close>. With these, the two KPI sums as the specification words
  them: the credits of the program's completed enrollments, once per enrollment, and the
  credit-weighted mean of the program's graded enrollments.
\<close>

definition modul_of :: "database \<Rightarrow> int \<Rightarrow> modul_row option" where
  "modul_of db k = find (\<lambda>m. m_modul_id m = k) (modul db)"

definition credit_weight :: "database \<Rightarrow> int \<Rightarrow> int" where
  "credit_weight db k = (case modul_of db k of Some m \<Rightarrow> m_ects m | None \<Rightarrow> 0)"

definition grade :: "belegung_row \<Rightarrow> rat" where
  "grade b = (case mb_ist_note b of Some g \<Rightarrow> g | None \<Rightarrow> 0)"

definition completed_credits :: "database \<Rightarrow> int \<Rightarrow> int" where
  "completed_credits db sg =
     sum_list (map (\<lambda>b. credit_weight db (mb_modul_id b))
       (filter (\<lambda>b. mb_studiengang_id b = sg \<and> mb_ist_bestanden_am b \<noteq> None) (modul_belegung db)))"

definition credit_weighted_mean :: "database \<Rightarrow> int \<Rightarrow> rat option" where
  "credit_weighted_mean db sg =
     (let graded = filter (\<lambda>b. mb_studiengang_id b = sg \<and> mb_ist_note b \<noteq> None) (modul_belegung db);
          credits = sum_list (map (\<lambda>b. credit_weight db (mb_modul_id b)) graded);
          weighted = sum_list (map (\<lambda>b. of_int (credit_weight db (mb_modul_id b)) * grade b) graded)
      in if graded = [] \<or> credits = 0 then None else Some (weighted / of_int credits))"

text \<open>
  Modelled from the spec: the foreign key of \<^verbatim>\<open>modul_belegung.modul_id\<close> into the
  catalog (section 6 of the specification; the schema of \<^verbatim>\<open>db.py\<close> is not part of the
  examined sources).
\<close>

definition foreign_keys :: "database \<Rightarrow> bool" where
  "foreign_keys db = (\<forall>b \<in> set (modul_belegung db). \<exists>m \<in> set (modul db). m_modul_id m = mb_modul_id b)"

text \<open>
  Decimal notation: the character of a digit, a number below 100 written with two
  digits, and the ways a day or month number may be written (two digits, or one digit
  below ten).
\<close>

definition digit_char :: "nat \<Rightarrow> char" where
  "digit_char n = ''0123456789'' ! n"

definition two_digits :: "int \<Rightarrow> string" where
  "two_digits n = [digit_char (nat (n div 10)), digit_char (nat (n mod 10))]"

definition written :: "int \<Rightarrow> string \<Rightarrow> bool" where
  "written n t = (t = two_digits n \<or> (n < 10 \<and> t = [digit_char (nat n)]))"

text \<open>A match continued after the text \<open>t\<close> and the groups \<open>g\<close>.\<close>

definition lead :: "string \<Rightarrow> (char \<times> string) list \<Rightarrow> rmatch_result \<Rightarrow> rmatch_result" where
  "lead t g = (\<lambda>(t2, g2, r2). (t @ t2, g @ g2, r2))"

text \<open>
  The days of the calendar without the upper bound on the year, and the day after a
  day: the day number counts the steps of \<open>next_day\<close>.
\<close>

definition calendar_day :: "date \<Rightarrow> bool" where
  "calendar_day d =
     (1 \<le> year d \<and> 1 \<le> month d \<and> month d \<le> 12 \<and>
      1 \<le> day d \<and> day d \<le> days_in_month (year d) (month d))"

definition next_day :: "date \<Rightarrow> date" where
  "next_day d =
     (if day d < days_in_month (year d) (month d) then d\<lparr>day := day d + 1\<rparr>
      else if month d < 12 then d\<lparr>month := month d + 1, day := 1\<rparr>
      else \<lparr>year = year d + 1, month = 1, day = 1\<rparr>)"

section \<open>Example data\<close>

definition belegung_a :: belegung_row where
  "belegung_a =
     \<lparr>mb_belegung_id = 1, mb_studiengang_id = 1, mb_modul_id = 10, mb_plan_semester_nr = 1,
      mb_ist_semester_nr = None, mb_soll_bestanden_am = None, mb_ist_bestanden_am = None,
      mb_soll_note = None, mb_ist_note = Some 2, mb_anzahl_versuche = 1\<rparr>"

definition belegung_update :: ModulBelegung where
  "belegung_update =
     \<lparr>belegung_id = Some 2, studiengang_id = 1, modul_id = 11, plan_semester_nr = 2,
      ist_semester_nr = None, soll_bestanden_am = None, ist_bestanden_am = None,
      soll_note = None, ist_note = None, anzahl_versuche = 1\<rparr>"

definition modul_math :: modul_row where
  "modul_math = \<lparr>m_modul_id = 10, m_titel = ''Mathematik'', m_ects = 5, m_plan_semester_nr = 1,
      m_default_soll_bestanden_am = None\<rparr>"

definition modul_prog :: modul_row where
  "modul_prog = \<lparr>m_modul_id = 11, m_titel = ''Programmierung'', m_ects = 10, m_plan_semester_nr = 1,
      m_default_soll_bestanden_am = None\<rparr>"

definition attempt1 :: belegung_row where
  "attempt1 =
     \<lparr>mb_belegung_id = 1, mb_studiengang_id = 1, mb_modul_id = 10, mb_plan_semester_nr = 1,
      mb_ist_semester_nr = Some 1,
      mb_soll_bestanden_am = Some \<lparr>year = 2024, month = 1, day = 10\<rparr>,
      mb_ist_bestanden_am = Some \<lparr>year = 2024, month = 1, day = 15\<rparr>,
      mb_soll_note = Some 2, mb_ist_note = Some 2, mb_anzahl_versuche = 1\<rparr>"

definition attempt2 :: belegung_row where
  "attempt2 =
     \<lparr>mb_belegung_id = 3, mb_studiengang_id = 1, mb_modul_id = 10, mb_plan_semester_nr = 1,
      mb_ist_semester_nr = Some 2,
      mb_soll_bestanden_am = Some \<lparr>year = 2024, month = 1, day = 10\<rparr>,
      mb_ist_bestanden_am = Some \<lparr>year = 2024, month = 1, day = 15\<rparr>,
      mb_soll_note = Some 2, mb_ist_note = Some (13 / 10), mb_anzahl_versuche = 2\<rparr>"

definition attempt_prog :: belegung_row where
  "attempt_prog =
     \<lparr>mb_belegung_id = 2, mb_studiengang_id = 1, mb_modul_id = 11, mb_plan_semester_nr = 1,
      mb_ist_semester_nr = None,
      mb_soll_bestanden_am = Some \<lparr>year = 2024, month = 3, day = 10\<rparr>,
      mb_ist_bestanden_am = Some \<lparr>year = 2023, month = 12, day = 15\<rparr>,
      mb_soll_note = None, mb_ist_note = None, mb_anzahl_versuche = 1\<rparr>"

definition attempt_other :: belegung_row where
  "attempt_other =
     \<lparr>mb_belegung_id = 4, mb_studiengang_id = 2, mb_modul_id = 10, mb_plan_semester_nr = 1,
      mb_ist_semester_nr = None,
      mb_soll_bestanden_am = Some \<lparr>year = 2024, month = 3, day = 10\<rparr>,
      mb_ist_bestanden_am = None,
      mb_soll_note = None, mb_ist_note = Some 3, mb_anzahl_versuche = 1\<rparr>"

definition example_db :: database where
  "example_db = empty_database\<lparr>modul := [modul_prog, modul_math],
     modul_belegung := [attempt1, attempt_prog, attempt2, attempt_other]\<rparr>"

definition student_a :: Student where
  "student_a = \<lparr>vorname = ''Anna'', nachname = ''Alt'', matrikelnummer = ''4711'',
     geburtsdatum = Some \<lparr>year = 2000, month = 2, day = 29\<rparr>, adresse = None\<rparr>"

definition student_b :: Student where
  "student_b = \<lparr>vorname = ''Bert'', nachname = ''Berg'', matrikelnummer = ''4712'',
     geburtsdatum = None, adresse = Some ''Hauptstr. 1''\<rparr>"

definition student_a_renamed :: Student where
  "student_a_renamed = \<lparr>vorname = ''Anna'', nachname = ''Neu'', matrikelnummer = ''4711'',
     geburtsdatum = Some \<lparr>year = 2000, month = 2, day = 29\<rparr>, adresse = Some ''Ring 2''\<rparr>"

definition two_students :: database where
  "two_students = fst (upsert (fst (upsert empty_database student_a)) student_b)"

definition program_old :: studiengang_row where
  "program_old = \<lparr>sg_studiengang_id = 1, sg_student_id = 1, sg_name = ''Informatik'',
     sg_start_datum = \<lparr>year = 2022, month = 10, day = 1\<rparr>, sg_soll_studiensemester = Some 6,
     sg_soll_durchschnittsnote = 2\<rparr>"

definition program_other :: studiengang_row where
  "program_other = \<lparr>sg_studiengang_id = 2, sg_student_id = 2, sg_name = ''Physik'',
     sg_start_datum = \<lparr>year = 2023, month = 4, day = 1\<rparr>, sg_soll_studiensemester = None,
     sg_soll_durchschnittsnote = 5 / 2\<rparr>"

definition program_new :: studiengang_row where
  "program_new = \<lparr>sg_studiengang_id = 3, sg_student_id = 1, sg_name = ''Data Science'',
     sg_start_datum = \<lparr>year = 2024, month = 4, day = 1\<rparr>, sg_soll_studiensemester = Some 4,
     sg_soll_durchschnittsnote = 3 / 2\<rparr>"

definition programs_db :: database where
  "programs_db = empty_database\<lparr>studiengang := [program_new, program_other, program_old]\<rparr>"

section \<open>Unfolding the example data\<close>

lemmas example_defs = example_db_def empty_database_def modul_math_def modul_prog_def
  attempt1_def attempt2_def attempt_prog_def attempt_other_def

section \<open>The day number counts days\<close>

text \<open>
  The day after a day of the calendar has the next day number, so the difference of the
  day numbers of two dates is the number of days that lead from one to the other.
\<close>

lemma valid_calendar_day: "valid_date d \<Longrightarrow> calendar_day d"
  by (simp add: valid_date_def calendar_day_def)

lemma days_in_month_pos: "1 \<le> days_in_month y m"
  by (simp add: days_in_month_def)

lemma calendar_day_next: "calendar_day d \<Longrightarrow> calendar_day (next_day d)"
  using days_in_month_pos[of "year d" "month d + 1"]
  by (auto simp: calendar_day_def next_day_def days_in_month_def)

lemma months_of_year: "sum_list (map (days_in_month y) [1 .. 11]) + 31 = days_in_year y"
  by (simp add: upto_rec1 days_in_month_def days_in_year_def)

lemma day_number_next_day:
  assumes "calendar_day d"
  shows "day_number (next_day d) = day_number d + 1"
proof -
  from assms have r: "1 \<le> year d" "1 \<le> month d" "month d \<le> 12" "day d \<le> days_in_month (year d) (month d)"
    by (simp_all add: calendar_day_def)
  consider (inside) "day d < days_in_month (year d) (month d)"
    | (month_end) "day d = days_in_month (year d) (month d)" "month d < 12"
    | (year_end) "day d = days_in_month (year d) (month d)" "month d = 12"
    using r by linarith
  then show ?thesis
  proof cases
    case inside
    then show ?thesis by (simp add: next_day_def day_number_def)
  next
    case month_end
    have "[1 .. month d + 1 - 1] = [1 .. month d - 1] @ [month d]"
      using r(2) by (simp add: upto_rec2)
    then show ?thesis using month_end by (simp add: next_day_def day_number_def)
  next
    case year_end
    have u: "[1 .. year d] = [1 .. year d - 1] @ [year d]"
      using r(1) by (simp add: upto_rec2)
    have e: "day d = 31" using year_end by (simp add: days_in_month_def)
    have "day_number (next_day d) = sum_list (map days_in_year [1 .. year d - 1]) + days_in_year (year d) + 1"
      using year_end e unfolding next_day_def day_number_def by (simp add: u)
    also have "\<dots> = sum_list (map days_in_year [1 .. year d - 1])
        + (sum_list (map (days_in_month (year d)) [1 .. 11]) + 31) + 1"
      by (simp only: months_of_year)
    also have "\<dots> = day_number d + 1"
      using year_end(2) e by (simp add: day_number_def)
    finally show ?thesis .
  qed
qed

lemma day_number_after:
  "calendar_day d \<Longrightarrow>
   calendar_day ((next_day ^^ n) d) \<and> day_number ((next_day ^^ n) d) = day_number d + int n"
proof (induction n)
  case 0
  then show ?case by simp
next
  case (Suc n)
  then have "calendar_day ((next_day ^^ n) d)"
    and "day_number ((next_day ^^ n) d) = day_number d + int n" by simp_all
  then show ?case by (simp add: calendar_day_next day_number_next_day)
qed

section \<open>The Julian day number and the calendar\<close>

text \<open>
  The engine's Julian day number of a date and the calendar's day number differ by a
  constant, so the difference of two Julian days is the number of days between the dates.
\<close>

lemma div_step: "0 < n \<Longrightarrow> (i::int) div n - (i - 1) div n = (if i mod n = 0 then 1 else 0)"
proof (cases "i mod n = 0")
  case True
  assume n: "0 < n"
  from True have "i = n * (i div n)" by (metis mult_div_mod_eq add.right_neutral)
  then have "i - 1 = (i div n - 1) * n + (n - 1)" by (simp add: algebra_simps)
  then have "(i - 1) div n = (i div n - 1) + (n - 1) div n"
    using n by (metis div_mult_self3 less_irrefl add.commute)
  moreover have "(n - 1) div n = 0" using n by simp
  ultimately show ?thesis using True by simp
next
  case False
  assume n: "0 < n"
  have "0 \<le> i mod n" "i mod n < n" using n by (rule pos_mod_sign, rule pos_mod_bound)
  with False have r: "0 \<le> i mod n - 1" "i mod n - 1 < n" by linarith+
  have "i - 1 = (i div n) * n + (i mod n - 1)" by (simp add: algebra_simps)
  then have "(i - 1) div n = i div n + (i mod n - 1) div n"
    using n by (metis div_mult_self3 less_irrefl add.commute)
  moreover have "(i mod n - 1) div n = 0" using r by simp
  ultimately show ?thesis using False by simp
qed

lemma leap_mods: "(i::int) mod 400 = 0 \<Longrightarrow> i mod 100 = 0" "(i::int) mod 100 = 0 \<Longrightarrow> i mod 4 = 0"
proof -
  have a: "(100::int) dvd 400" "(4::int) dvd 100" by simp_all
  show "i mod 400 = 0 \<Longrightarrow> i mod 100 = 0" using a(1) by (metis mod_mod_cancel mod_0)
  show "i mod 100 = 0 \<Longrightarrow> i mod 4 = 0" using a(2) by (metis mod_mod_cancel mod_0)
qed


lemma days_in_year_step:
  "days_in_year i = 365 + (i div 4 - (i - 1) div 4) - (i div 100 - (i - 1) div 100) + (i div 400 - (i - 1) div 400)"
proof -
  have a: "i div 4 - (i - 1) div 4 = (if i mod 4 = 0 then 1 else 0)" by (rule div_step) simp
  have b: "i div 100 - (i - 1) div 100 = (if i mod 100 = 0 then 1 else 0)" by (rule div_step) simp
  have c: "i div 400 - (i - 1) div 400 = (if i mod 400 = 0 then 1 else 0)" by (rule div_step) simp
  consider (q) "i mod 400 = 0" "i mod 100 = 0" "i mod 4 = 0"
    | (h) "i mod 400 \<noteq> 0" "i mod 100 = 0" "i mod 4 = 0"
    | (l) "i mod 400 \<noteq> 0" "i mod 100 \<noteq> 0" "i mod 4 = 0"
    | (n) "i mod 400 \<noteq> 0" "i mod 100 \<noteq> 0" "i mod 4 \<noteq> 0"
    using leap_mods[of i] by metis
  then show ?thesis
  proof cases
    case q then show ?thesis unfolding a b c days_in_year_def is_leap_def by simp
  next
    case h then show ?thesis unfolding a b c days_in_year_def is_leap_def by simp
  next
    case l then show ?thesis unfolding a b c days_in_year_def is_leap_def by simp
  next
    case n then show ?thesis unfolding a b c days_in_year_def is_leap_def by simp
  qed
qed

lemma days_before_year_closed:
  "1 \<le> y \<Longrightarrow> sum_list (map days_in_year [1 .. y - 1])
     = 365 * (y - 1) + (y - 1) div 4 - (y - 1) div 100 + (y - 1) div 400"
proof (induction y rule: int_ge_induct)
  case base
  then show ?case by simp
next
  case (step i)
  have u: "[1 .. i + 1 - 1] = [1 .. i - 1] @ [i]" using step.hyps by (simp add: upto_rec2)
  have "sum_list (map days_in_year [1 .. i + 1 - 1]) = sum_list (map days_in_year [1 .. i - 1]) + days_in_year i"
    unfolding u by simp
  also have "\<dots> = 365 * (i - 1) + (i - 1) div 4 - (i - 1) div 100 + (i - 1) div 400 + days_in_year i"
    using step.IH by simp
  also have "\<dots> = 365 * i + i div 4 - i div 100 + i div 400"
    unfolding days_in_year_step[of i] by simp
  finally show ?case by simp
qed


lemma x1_eq: "36525 * (Y + 4716) div 100 = 365 * Y + Y div 4 + (1722519::int)"
proof -
  have "36525 * (Y + 4716) = (365 * Y + 1721340) * 100 + 25 * (Y + 4716)" by simp
  then have "36525 * (Y + 4716) div 100 = (365 * Y + 1721340) + 25 * (Y + 4716) div 100"
    by (metis div_mult_self3 add.commute zero_neq_numeral)
  moreover have "25 * (Y + 4716) div 100 = (Y + 4716) div 4"
    using div_mult_mult1[of 25 "Y + 4716" 4] by simp
  moreover have "(Y + 4716) div 4 = Y div 4 + 1179"
    using div_mult_self3[of 4 Y 1179] by (simp add: add.commute)
  ultimately show ?thesis by simp
qed

lemma b_eq: "(Y::int) div 100 div 4 = Y div 400"
  using zdiv_zmult2_eq[of 4 Y 100] by simp

lemma jdn_eq:
  "jdn dt = (if month dt \<le> 2
     then 365 * (year dt - 1) + (year dt - 1) div 4 - (year dt - 1) div 100 + (year dt - 1) div 400
          + 306001 * (month dt + 12 + 1) div 10000 + day dt + 1722521
     else 365 * year dt + year dt div 4 - year dt div 100 + year dt div 400
          + 306001 * (month dt + 1) div 10000 + day dt + 1722521)"
  unfolding jdn_def Let_def x1_eq b_eq by (simp add: ac_simps)

lemma days_before_month:
  "1 \<le> m \<Longrightarrow> m \<le> 12 \<Longrightarrow> sum_list (map (days_in_month y) [1 .. m - 1])
     = (if m \<le> 2 then 306001 * (m + 12 + 1) div 10000 - 428
        else 306001 * (m + 1) div 10000 - 63 + (if is_leap y then 1 else 0))"
proof -
  assume "1 \<le> m" "m \<le> 12"
  then have "m = 1 \<or> m = 2 \<or> m = 3 \<or> m = 4 \<or> m = 5 \<or> m = 6
     \<or> m = 7 \<or> m = 8 \<or> m = 9 \<or> m = 10 \<or> m = 11 \<or> m = 12"
    by arith
  then show ?thesis
    by (elim disjE) (simp_all add: days_in_month_def upto_rec1)
qed

lemma jdn_day_number:
  assumes y: "1 \<le> year d" and m: "1 \<le> month d" "month d \<le> 12"
  shows "jdn d = day_number d + 1722949"
proof -
  let ?y = "year d"
  have dby: "sum_list (map days_in_year [1 .. ?y - 1])
     = 365 * (?y - 1) + (?y - 1) div 4 - (?y - 1) div 100 + (?y - 1) div 400"
    using y by (rule days_before_year_closed)
  have step: "?y div 4 - ?y div 100 + ?y div 400
     = (?y - 1) div 4 - (?y - 1) div 100 + (?y - 1) div 400 + (if is_leap ?y then 1 else 0)"
    using days_in_year_step[of ?y] by (simp add: days_in_year_def split: if_splits)
  show ?thesis
  proof (cases "month d \<le> 2")
    case True
    then show ?thesis
      unfolding jdn_eq day_number_def dby days_before_month[OF m] by simp
  next
    case False
    then show ?thesis
      unfolding jdn_eq day_number_def dby days_before_month[OF m] using step by simp
  qed
qed

lemma julianday_day_number:
  assumes "1 \<le> year d" "1 \<le> month d" "month d \<le> 12"
  shows "julianday d = of_int (day_number d) + 3442849 / 2"
proof -
  have "julianday d = of_int (jdn d) - 3049 / 2"
    by (simp add: julianday_def jdn_def Let_def)
  also have "\<dots> = of_int (day_number d + 1722949) - 3049 / 2"
    using jdn_day_number[OF assms] by simp
  finally show ?thesis by simp
qed

lemma cast_integer_of_int: "cast_integer (of_int k) = k"
  by (simp add: cast_integer_def)

lemma delta_days_both:
  assumes "1 \<le> year s" "1 \<le> month s" "month s \<le> 12" "1 \<le> year a" "1 \<le> month a" "month a \<le> 12"
  shows "delta_days (Some s) (Some a) = Some (day_number a - day_number s)"
proof -
  have "julianday a - julianday s = of_int (day_number a - day_number s)"
    using assms by (simp add: julianday_day_number)
  then show ?thesis by (simp only: delta_days_def option.case cast_integer_of_int)
qed

section \<open>The latest enrollment of every module\<close>

























lemma ex_latest: "latest example_db 1 = [(Some 2, 11), (Some 3, 10)]"
  by (simp add: latest_def example_defs sql_max_def)

lemma ex_join: "latest_join example_db 1 = [(attempt_prog, modul_prog), (attempt2, modul_math)]"
  unfolding latest_join_def ex_latest by (simp add: example_defs)

lemma ex_plot: "map pr_modul_id (plot_latest_per_module example_db 1) = [10, 11]
   \<and> map pr_ist_note (plot_latest_per_module example_db 1) = [Some (13 / 10), None]
   \<and> map pr_delta_days (plot_latest_per_module example_db 1) = [Some 5, Some (- 86)]"
  unfolding plot_latest_per_module_def ex_join
  by (simp add: example_defs select_plot_row_def delta_days_def julianday_def cast_integer_def)



section \<open>The deviation in days\<close>

lemma day_number_closed:
  "1 \<le> year d \<Longrightarrow> day_number d =
     365 * (year d - 1) + (year d - 1) div 4 - (year d - 1) div 100 + (year d - 1) div 400
     + sum_list (map (days_in_month (year d)) [1 .. month d - 1]) + day d"
  by (simp add: day_number_def days_before_year_closed)

lemma plot_row_delta_days:
  assumes "r \<in> set (plot_latest_per_module db sg)"
  shows "pr_delta_days r = delta_days (pr_soll_bestanden_am r) (pr_ist_bestanden_am r)"
proof -
  from assms obtain x where "r = select_plot_row x"
    unfolding plot_latest_per_module_def by auto
  then show ?thesis by (cases x) (simp add: select_plot_row_def)
qed


text \<open>
  Claim C2. In every row returned by \<^verbatim>\<open>plot_latest_per_module\<close> the field
  \<^verbatim>\<open>delta_days\<close> is NULL when the target or the actual completion date is missing; when
  both are present (and are dates of the calendar, as every date the repositories store
  is) it is the day number of the actual date minus the day number of the target date,
  that is the number of days from the target to the actual date (\<open>day_number_after\<close>):
  5 for target 2024-01-10 and actual 2024-01-15, negative when the actual date is the
  earlier one.
\<close>

theorem plot_delta_days_spec:
  "\<forall>r \<in> set (plot_latest_per_module db sg).
     ((pr_soll_bestanden_am r = None \<or> pr_ist_bestanden_am r = None) \<longrightarrow> pr_delta_days r = None)
     \<and> (\<forall>s a. pr_soll_bestanden_am r = Some s \<and> pr_ist_bestanden_am r = Some a
              \<and> valid_date s \<and> valid_date a
            \<longrightarrow> pr_delta_days r = Some (day_number a - day_number s))"
proof (intro ballI conjI allI impI)
  fix r assume r: "r \<in> set (plot_latest_per_module db sg)"
  assume "pr_soll_bestanden_am r = None \<or> pr_ist_bestanden_am r = None"
  then show "pr_delta_days r = None"
    unfolding plot_row_delta_days[OF r] by (auto simp: delta_days_def split: option.splits)
next
  fix r s a assume r: "r \<in> set (plot_latest_per_module db sg)"
  assume h: "pr_soll_bestanden_am r = Some s \<and> pr_ist_bestanden_am r = Some a
              \<and> valid_date s \<and> valid_date a"
  then have "delta_days (Some s) (Some a) = Some (day_number a - day_number s)"
    by (intro delta_days_both) (simp_all add: valid_date_def)
  with h show "pr_delta_days r = Some (day_number a - day_number s)"
    unfolding plot_row_delta_days[OF r] by simp
qed

lemma ex_rows: "plot_latest_per_module example_db 1 =
   [select_plot_row (attempt2, modul_math), select_plot_row (attempt_prog, modul_prog)]"
  unfolding plot_latest_per_module_def ex_join
  by (simp add: example_defs)

theorem plot_delta_days_spec_witness:
  "select_plot_row (attempt2, modul_math) \<in> set (plot_latest_per_module example_db 1)
   \<and> pr_soll_bestanden_am (select_plot_row (attempt2, modul_math)) = Some \<lparr>year = 2024, month = 1, day = 10\<rparr>
   \<and> pr_ist_bestanden_am (select_plot_row (attempt2, modul_math)) = Some \<lparr>year = 2024, month = 1, day = 15\<rparr>
   \<and> valid_date \<lparr>year = 2024, month = 1, day = 10\<rparr> \<and> valid_date \<lparr>year = 2024, month = 1, day = 15\<rparr>
   \<and> pr_delta_days (select_plot_row (attempt2, modul_math)) = Some 5
   \<and> map pr_delta_days (plot_latest_per_module example_db 1) = [Some 5, Some (- 86)]
   \<and> map pr_delta_days (plot_latest_per_module example_db 2) = [None]"
proof -
  have m: "select_plot_row (attempt2, modul_math) \<in> set (plot_latest_per_module example_db 1)"
    unfolding ex_rows by simp
  have f: "pr_soll_bestanden_am (select_plot_row (attempt2, modul_math)) = Some \<lparr>year = 2024, month = 1, day = 10\<rparr>"
    "pr_ist_bestanden_am (select_plot_row (attempt2, modul_math)) = Some \<lparr>year = 2024, month = 1, day = 15\<rparr>"
    by (simp_all add: select_plot_row_def attempt2_def)
  have v: "valid_date \<lparr>year = 2024, month = 1, day = 10\<rparr>" "valid_date \<lparr>year = 2024, month = 1, day = 15\<rparr>"
    by (simp_all add: valid_date_def days_in_month_def)
  have n: "day_number \<lparr>year = 2024, month = 1, day = 15\<rparr> - day_number \<lparr>year = 2024, month = 1, day = 10\<rparr> = 5"
    by (simp add: day_number_closed)
  have o: "map pr_delta_days (plot_latest_per_module example_db 2) = [None]"
    by (simp add: plot_latest_per_module_def latest_join_def latest_def example_defs sql_max_def
        select_plot_row_def delta_days_def)
  from plot_delta_days_spec[of example_db 1] m f v
  have "pr_delta_days (select_plot_row (attempt2, modul_math))
      = Some (day_number \<lparr>year = 2024, month = 1, day = 15\<rparr> - day_number \<lparr>year = 2024, month = 1, day = 10\<rparr>)"
    by blast
  with n m f v o ex_plot show ?thesis by simp
qed

section \<open>Upsert of a student\<close>

text \<open>
  The key of an inserted row exceeds every key in use, and the statement changes the
  student table only: by one appended row, or by the SET clause on the conflicting row.
\<close>

lemma fold_max_ge: "x \<in> set ids \<Longrightarrow> x \<le> fold max ids (a::int)"
proof (induction ids arbitrary: a)
  case Nil then show ?case by simp
next
  case (Cons y ys)
  have mono: "\<And>b zs. (b::int) \<le> fold max zs b"
  proof -
    fix b :: int and zs show "b \<le> fold max zs b"
      by (induction zs arbitrary: b) (auto intro: order_trans[OF max.cobounded2])
  qed
  from Cons show ?case
  proof (cases "x = y")
    case True
    have "y \<le> max y a" by simp
    also have "\<dots> \<le> fold max ys (max y a)" by (rule mono)
    finally show ?thesis using True by simp
  next
    case False
    with Cons.prems have "x \<in> set ys" by simp
    then show ?thesis using Cons.IH by simp
  qed
qed

lemma next_rowid_fresh: "next_rowid ids \<notin> set ids"
proof
  assume "next_rowid ids \<in> set ids"
  then have "next_rowid ids \<le> fold max ids 0" by (rule fold_max_ge)
  moreover from \<open>next_rowid ids \<in> set ids\<close> have "ids \<noteq> []" by auto
  ultimately show False by (simp add: next_rowid_def)
qed

lemma fst_upsert: "fst (upsert db s) = fst (exec_upsert db s)"
  by (simp add: upsert_def Let_def split: prod.splits option.splits)

lemma iso_id: "iso d = d"
  by (simp add: iso_def split: option.splits)

lemma student_after_insert:
  assumes "\<forall>r \<in> set (student db). st_matrikelnummer r \<noteq> matrikelnummer s"
  shows "student (fst (upsert db s)) = student db @
     [\<lparr>st_student_id = next_rowid (map st_student_id (student db)), st_vorname = vorname s,
       st_nachname = nachname s, st_matrikelnummer = matrikelnummer s,
       st_geburtsdatum = geburtsdatum s, st_adresse = adresse s\<rparr>]"
proof -
  from assms have "\<not> list_ex (\<lambda>r. st_matrikelnummer r = matrikelnummer s) (student db)"
    by (simp add: list_ex_iff)
  then show ?thesis by (simp add: fst_upsert exec_upsert_def Let_def iso_id)
qed

lemma student_after_update:
  assumes "\<exists>r \<in> set (student db). st_matrikelnummer r = matrikelnummer s"
  shows "student (fst (upsert db s)) =
     map (\<lambda>r. if st_matrikelnummer r = matrikelnummer s then upsert_set s r else r) (student db)"
proof -
  from assms have "list_ex (\<lambda>r. st_matrikelnummer r = matrikelnummer s) (student db)"
    by (simp add: list_ex_iff)
  then show ?thesis by (simp add: fst_upsert exec_upsert_def)
qed

lemma ex_two_students:
  "two_students = \<lparr>student =
      [\<lparr>st_student_id = 1, st_vorname = ''Anna'', st_nachname = ''Alt'', st_matrikelnummer = ''4711'',
        st_geburtsdatum = Some \<lparr>year = 2000, month = 2, day = 29\<rparr>, st_adresse = None\<rparr>,
       \<lparr>st_student_id = 2, st_vorname = ''Bert'', st_nachname = ''Berg'', st_matrikelnummer = ''4712'',
        st_geburtsdatum = None, st_adresse = Some ''Hauptstr. 1''\<rparr>],
     studiengang = [], modul = [], modul_belegung = [], last_insert_rowid = 2\<rparr>"
  by (simp add: two_students_def fst_upsert exec_upsert_def empty_database_def student_a_def
      student_b_def next_rowid_def iso_id Let_def)

lemma ex_upsert_again:
  "upsert two_students student_a_renamed =
    (\<lparr>student =
      [\<lparr>st_student_id = 1, st_vorname = ''Anna'', st_nachname = ''Neu'', st_matrikelnummer = ''4711'',
        st_geburtsdatum = Some \<lparr>year = 2000, month = 2, day = 29\<rparr>, st_adresse = Some ''Ring 2''\<rparr>,
       \<lparr>st_student_id = 2, st_vorname = ''Bert'', st_nachname = ''Berg'', st_matrikelnummer = ''4712'',
        st_geburtsdatum = None, st_adresse = Some ''Hauptstr. 1''\<rparr>],
     studiengang = [], modul = [], modul_belegung = [], last_insert_rowid = 2\<rparr>, Inr 2)"
  unfolding ex_two_students
  by (simp add: upsert_def exec_upsert_def student_a_renamed_def upsert_set_def usable_rowid_def iso_id)


text \<open>
  Claim C3. \<^verbatim>\<open>StudentRepository.upsert\<close> appends a new row, with a student id no stored
  row has, when no stored student has the given matrikelnummer. When a stored student
  has it, the table keeps its length and order, every row keeps its student id and its
  matrikelnummer, the row with that matrikelnummer takes vorname, nachname, geburtsdatum
  and adresse from the argument, and every other row is unchanged. The other tables are
  untouched in both cases.
\<close>

theorem upsert_insert_or_overwrite:
  "((\<forall>r \<in> set (student db). st_matrikelnummer r \<noteq> matrikelnummer s) \<longrightarrow>
      (\<exists>i. i \<notin> st_student_id ` set (student db) \<and>
           student (fst (upsert db s)) = student db @
             [\<lparr>st_student_id = i, st_vorname = vorname s, st_nachname = nachname s,
               st_matrikelnummer = matrikelnummer s, st_geburtsdatum = geburtsdatum s,
               st_adresse = adresse s\<rparr>]))
   \<and> ((\<exists>r \<in> set (student db). st_matrikelnummer r = matrikelnummer s) \<longrightarrow>
        length (student (fst (upsert db s))) = length (student db) \<and>
        (\<forall>k < length (student db).
           st_student_id (student (fst (upsert db s)) ! k) = st_student_id (student db ! k) \<and>
           st_matrikelnummer (student (fst (upsert db s)) ! k) = st_matrikelnummer (student db ! k) \<and>
           (st_matrikelnummer (student db ! k) = matrikelnummer s \<longrightarrow>
              st_vorname (student (fst (upsert db s)) ! k) = vorname s \<and>
              st_nachname (student (fst (upsert db s)) ! k) = nachname s \<and>
              st_geburtsdatum (student (fst (upsert db s)) ! k) = geburtsdatum s \<and>
              st_adresse (student (fst (upsert db s)) ! k) = adresse s) \<and>
           (st_matrikelnummer (student db ! k) \<noteq> matrikelnummer s \<longrightarrow>
              student (fst (upsert db s)) ! k = student db ! k)))
   \<and> studiengang (fst (upsert db s)) = studiengang db
   \<and> modul (fst (upsert db s)) = modul db
   \<and> modul_belegung (fst (upsert db s)) = modul_belegung db"
proof (intro conjI impI)
  assume h: "\<forall>r \<in> set (student db). st_matrikelnummer r \<noteq> matrikelnummer s"
  have "next_rowid (map st_student_id (student db)) \<notin> st_student_id ` set (student db)"
    using next_rowid_fresh[of "map st_student_id (student db)"] by simp
  with student_after_insert[OF h]
  show "\<exists>i. i \<notin> st_student_id ` set (student db) \<and>
           student (fst (upsert db s)) = student db @
             [\<lparr>st_student_id = i, st_vorname = vorname s, st_nachname = nachname s,
               st_matrikelnummer = matrikelnummer s, st_geburtsdatum = geburtsdatum s,
               st_adresse = adresse s\<rparr>]"
    by blast
next
  assume h: "\<exists>r \<in> set (student db). st_matrikelnummer r = matrikelnummer s"
  show "length (student (fst (upsert db s))) = length (student db)"
    unfolding student_after_update[OF h] by simp
  show "\<forall>k < length (student db).
           st_student_id (student (fst (upsert db s)) ! k) = st_student_id (student db ! k) \<and>
           st_matrikelnummer (student (fst (upsert db s)) ! k) = st_matrikelnummer (student db ! k) \<and>
           (st_matrikelnummer (student db ! k) = matrikelnummer s \<longrightarrow>
              st_vorname (student (fst (upsert db s)) ! k) = vorname s \<and>
              st_nachname (student (fst (upsert db s)) ! k) = nachname s \<and>
              st_geburtsdatum (student (fst (upsert db s)) ! k) = geburtsdatum s \<and>
              st_adresse (student (fst (upsert db s)) ! k) = adresse s) \<and>
           (st_matrikelnummer (student db ! k) \<noteq> matrikelnummer s \<longrightarrow>
              student (fst (upsert db s)) ! k = student db ! k)"
    unfolding student_after_update[OF h] by (simp add: upsert_set_def iso_id)
next
  show "studiengang (fst (upsert db s)) = studiengang db"
    by (simp add: fst_upsert exec_upsert_def Let_def)
  show "modul (fst (upsert db s)) = modul db"
    by (simp add: fst_upsert exec_upsert_def Let_def)
  show "modul_belegung (fst (upsert db s)) = modul_belegung db"
    by (simp add: fst_upsert exec_upsert_def Let_def)
qed

theorem upsert_insert_or_overwrite_witness:
  "list_ex (\<lambda>r. st_matrikelnummer r = matrikelnummer student_a_renamed) (student two_students)
   \<and> student (fst (upsert two_students student_a_renamed)) =
      [\<lparr>st_student_id = 1, st_vorname = ''Anna'', st_nachname = ''Neu'', st_matrikelnummer = ''4711'',
        st_geburtsdatum = Some \<lparr>year = 2000, month = 2, day = 29\<rparr>, st_adresse = Some ''Ring 2''\<rparr>,
       \<lparr>st_student_id = 2, st_vorname = ''Bert'', st_nachname = ''Berg'', st_matrikelnummer = ''4712'',
        st_geburtsdatum = None, st_adresse = Some ''Hauptstr. 1''\<rparr>]
   \<and> student empty_database = []
   \<and> student (fst (upsert empty_database student_a)) =
      [\<lparr>st_student_id = 1, st_vorname = ''Anna'', st_nachname = ''Alt'', st_matrikelnummer = ''4711'',
        st_geburtsdatum = Some \<lparr>year = 2000, month = 2, day = 29\<rparr>, st_adresse = None\<rparr>]"
  using upsert_insert_or_overwrite[of two_students student_a_renamed]
    upsert_insert_or_overwrite[of empty_database student_a]
  unfolding ex_upsert_again
  by (simp add: ex_two_students student_a_renamed_def fst_upsert exec_upsert_def
      empty_database_def student_a_def next_rowid_def iso_id Let_def)

section \<open>The id that upsert returns\<close>

text \<open>
  What holds of the returned id: the fallback lookup never fails after the statement,
  a really inserted row reports its own id, and on the DO UPDATE branch the lookup by
  matrikelnummer is reached only if the connection's last-insert-rowid register is 0.
\<close>

lemma upsert_no_runtime_error: "snd (upsert db s) \<noteq> Inl RuntimeError"
proof (cases "\<exists>r \<in> set (student db). st_matrikelnummer r = matrikelnummer s")
  case True
  then obtain r where r: "r \<in> set (student db)" "st_matrikelnummer r = matrikelnummer s" by blast
  from True have l: "list_ex (\<lambda>r. st_matrikelnummer r = matrikelnummer s) (student db)"
    by (simp add: list_ex_iff)
  have "upsert_set s r \<in> set (map (\<lambda>r. if st_matrikelnummer r = matrikelnummer s then upsert_set s r else r) (student db))"
    using r by force
  moreover have "st_matrikelnummer (upsert_set s r) = matrikelnummer s"
    using r(2) by (simp add: upsert_set_def)
  ultimately have "filter (\<lambda>r. st_matrikelnummer r = matrikelnummer s)
      (map (\<lambda>r. if st_matrikelnummer r = matrikelnummer s then upsert_set s r else r) (student db)) \<noteq> []"
    by (simp only: filter_empty_conv) blast
  then show ?thesis using l
    by (simp add: upsert_def exec_upsert_def select_student_id_def split: list.splits)
next
  case False
  then have "\<not> list_ex (\<lambda>r. st_matrikelnummer r = matrikelnummer s) (student db)"
    by (simp add: list_ex_iff)
  then show ?thesis
    by (simp add: upsert_def exec_upsert_def select_student_id_def Let_def split: list.splits)
qed

lemma upsert_result_on_insert:
  assumes "\<forall>r \<in> set (student db). st_matrikelnummer r \<noteq> matrikelnummer s"
  shows "snd (upsert db s) = Inr (next_rowid (map st_student_id (student db)))"
proof -
  from assms have l: "\<not> list_ex (\<lambda>r. st_matrikelnummer r = matrikelnummer s) (student db)"
    by (simp add: list_ex_iff)
  have "0 \<le> fold max (map st_student_id (student db)) 0"
    using fold_max_ge[of 0 "0 # map st_student_id (student db)" 0] by simp
  then have "next_rowid (map st_student_id (student db)) \<noteq> 0"
    by (simp add: next_rowid_def)
  with l show ?thesis
    by (simp add: upsert_def exec_upsert_def usable_rowid_def Let_def)
qed

lemma upsert_result_on_update_clear_register:
  assumes "\<exists>r \<in> set (student db). st_matrikelnummer r = matrikelnummer s"
    and "last_insert_rowid db = 0"
  shows "snd (upsert db s) = (case select_student_id db (matrikelnummer s) of
           Some i \<Rightarrow> Inr i | None \<Rightarrow> Inl RuntimeError)"
proof -
  from assms(1) have l: "list_ex (\<lambda>r. st_matrikelnummer r = matrikelnummer s) (student db)"
    by (simp add: list_ex_iff)
  have f: "filter (\<lambda>r. st_matrikelnummer r = k)
       (map (\<lambda>r. if st_matrikelnummer r = k then upsert_set s r else r) xs)
     = map (upsert_set s) (filter (\<lambda>r. st_matrikelnummer r = k) xs)" for k xs
    by (induction xs) (simp_all add: upsert_set_def)
  show ?thesis using l assms(2)
    by (simp add: upsert_def exec_upsert_def usable_rowid_def select_student_id_def f
        upsert_set_def split: list.splits)
qed

text \<open>
  Claim C4. \<^verbatim>\<open>StudentRepository.upsert\<close> is documented to return the student id of the
  stored row, through the fallback lookup on the DO UPDATE branch. It does not: after
  students 4711 (id 1) and 4712 (id 2) were inserted over the same connection, saving
  4711 again leaves the register at 2, the cursor's \<^verbatim>\<open>lastrowid\<close> is 2 and truthy, and 2
  is returned although the row of 4711 has id 1.
\<close>

theorem upsert_returns_stale_rowid:
  "snd (upsert empty_database student_a) = Inr 1
   \<and> snd (upsert two_students student_a_renamed) = Inr 2
   \<and> select_student_id (fst (upsert two_students student_a_renamed))
        (matrikelnummer student_a_renamed) = Some 1"
  unfolding ex_upsert_again
  by (simp add: select_student_id_def student_a_renamed_def upsert_def exec_upsert_def
      empty_database_def student_a_def next_rowid_def usable_rowid_def Let_def)

section \<open>The latest degree program of a student\<close>

text \<open>The first row in descending order is the last row in ascending order, a maximum.\<close>

lemma take1_rev: "ys \<noteq> [] \<Longrightarrow> take 1 (rev ys) = [last ys]"
  by (cases ys rule: rev_cases) simp_all

lemma sorted_last_max:
  assumes "sorted (map f ys)" "y \<in> set ys"
  shows "f y \<le> f (last ys)"
proof -
  from assms(2) have ne: "ys \<noteq> []" by auto
  from assms(2) have "f y \<in> set (map f ys)" by simp
  then have "f y \<le> last (map f ys)"
    using assms(1) by (metis in_set_conv_nth last_conv_nth length_greater_0_conv length_pos_if_in_set
        sorted_nth_mono Suc_pred' less_Suc_eq_le diff_Suc_1 order_refl)
  with ne show ?thesis by (simp add: last_map)
qed


text \<open>
  Claim C7. \<^verbatim>\<open>get_latest_for_student\<close> returns None exactly when the student owns no
  program; otherwise it returns the id and the fields of a program row of that student
  whose \<^verbatim>\<open>studiengang_id\<close> no program row of the student exceeds.
\<close>

theorem get_latest_for_student_spec:
  "(get_latest_for_student db sid = None
      \<longleftrightarrow> (\<forall>r \<in> set (studiengang db). sg_student_id r \<noteq> sid))
   \<and> (\<forall>i p. get_latest_for_student db sid = Some (i, p) \<longrightarrow>
         (\<exists>r \<in> set (studiengang db).
            sg_student_id r = sid \<and> sg_studiengang_id r = i \<and> p = studiengang_of r \<and>
            (\<forall>r' \<in> set (studiengang db). sg_student_id r' = sid \<longrightarrow> sg_studiengang_id r' \<le> i)))"
proof -
  let ?rows = "filter (\<lambda>r. sg_student_id r = sid) (studiengang db)"
  let ?s = "sort_key sg_studiengang_id ?rows"
  show ?thesis
  proof (cases "?rows = []")
    case True
    then have "get_latest_for_student db sid = None" by (simp add: get_latest_for_student_def)
    moreover from True have "\<forall>r \<in> set (studiengang db). sg_student_id r \<noteq> sid"
      by (simp add: filter_empty_conv)
    ultimately show ?thesis by simp
  next
    case False
    then have ne: "?s \<noteq> []" by (metis length_sort length_0_conv)
    let ?r = "last ?s"
    have t: "take 1 (rev ?s) = [?r]" using ne by (rule take1_rev)
    have g: "get_latest_for_student db sid = Some (sg_studiengang_id ?r, studiengang_of ?r)"
      unfolding get_latest_for_student_def t by (simp add: studiengang_of_def)
    have "?r \<in> set ?s" using ne by (rule last_in_set)
    then have r: "?r \<in> set (studiengang db)" "sg_student_id ?r = sid" by simp_all
    have mx: "\<forall>r' \<in> set (studiengang db). sg_student_id r' = sid
        \<longrightarrow> sg_studiengang_id r' \<le> sg_studiengang_id ?r"
    proof (intro ballI impI)
      fix r' assume "r' \<in> set (studiengang db)" "sg_student_id r' = sid"
      then have "r' \<in> set ?s" by simp
      with sorted_sort_key[of sg_studiengang_id ?rows]
      show "sg_studiengang_id r' \<le> sg_studiengang_id ?r" by (rule sorted_last_max)
    qed
    from r have nn: "\<not> (\<forall>r \<in> set (studiengang db). sg_student_id r \<noteq> sid)" by blast
    show ?thesis
    proof (intro conjI allI impI)
      show "get_latest_for_student db sid = None
          \<longleftrightarrow> (\<forall>r \<in> set (studiengang db). sg_student_id r \<noteq> sid)"
        using g nn by simp
    next
      fix i p assume "get_latest_for_student db sid = Some (i, p)"
      with g have "i = sg_studiengang_id ?r" "p = studiengang_of ?r" by simp_all
      with r mx show "\<exists>r \<in> set (studiengang db).
            sg_student_id r = sid \<and> sg_studiengang_id r = i \<and> p = studiengang_of r \<and>
            (\<forall>r' \<in> set (studiengang db). sg_student_id r' = sid \<longrightarrow> sg_studiengang_id r' \<le> i)"
        by (intro bexI[of _ ?r]) simp_all
    qed
  qed
qed

theorem get_latest_for_student_spec_witness:
  "get_latest_for_student programs_db 1 = Some (3, studiengang_of program_new)
   \<and> get_latest_for_student programs_db 7 = None
   \<and> set (studiengang programs_db) = {program_new, program_other, program_old}
   \<and> sg_studiengang_id program_old < 3"
  using get_latest_for_student_spec[of programs_db 1] get_latest_for_student_spec[of programs_db 7]
  by (simp add: get_latest_for_student_def programs_db_def empty_database_def program_old_def
      program_other_def program_new_def studiengang_of_def)

section \<open>Completed credits and the weighted average grade\<close>

text \<open>
  With \<^verbatim>\<open>modul_id\<close> a key of the catalog and every enrollment pointing into it, the
  inner join pairs each enrollment of the program with exactly its catalog row.
\<close>

lemma filter_key_find:
  "distinct (map f xs) \<Longrightarrow>
   filter (\<lambda>x. f x = k) xs = (case find (\<lambda>x. f x = k) xs of None \<Rightarrow> [] | Some x \<Rightarrow> [x])"
proof (induction xs)
  case Nil then show ?case by simp
next
  case (Cons a xs)
  show ?case
  proof (cases "f a = k")
    case True
    from Cons.prems have "f a \<notin> f ` set xs" by simp
    with True have "\<forall>x \<in> set xs. f x \<noteq> k" by (metis imageI)
    then have "filter (\<lambda>x. f x = k) xs = []" by (simp add: filter_empty_conv)
    with True show ?thesis by simp
  next
    case False
    with Cons show ?thesis by simp
  qed
qed

lemma modul_of_Some:
  assumes "\<exists>m \<in> set (modul db). m_modul_id m = k"
  shows "\<exists>m. modul_of db k = Some m"
proof (cases "modul_of db k")
  case None
  then have "\<not> (\<exists>m. m \<in> set (modul db) \<and> m_modul_id m = k)"
    unfolding modul_of_def find_None_iff .
  with assms show ?thesis by blast
next
  case (Some m) then show ?thesis by blast
qed

lemma join_row:
  assumes pk: "distinct (map m_modul_id (modul db))"
    and fk: "\<exists>m \<in> set (modul db). m_modul_id m = mb_modul_id mb"
  shows "map (\<lambda>m. (mb, m_ects m)) (filter (\<lambda>m. m_modul_id m = mb_modul_id mb) (modul db))
     = [(mb, credit_weight db (mb_modul_id mb))]"
proof -
  from modul_of_Some[OF fk] obtain m where m: "modul_of db (mb_modul_id mb) = Some m" by blast
  then have "find (\<lambda>m. m_modul_id m = mb_modul_id mb) (modul db) = Some m" by (simp add: modul_of_def)
  with filter_key_find[OF pk, of "mb_modul_id mb"]
  have "filter (\<lambda>m. m_modul_id m = mb_modul_id mb) (modul db) = [m]" by simp
  with m show ?thesis by (simp add: credit_weight_def)
qed

lemma concat_map_if_nested:
  "concat (map (\<lambda>m. if P m then (if Q then [g m] else []) else []) ms)
     = (if Q then map g (filter P ms) else [])"
  by (induction ms) simp_all

lemma join_ects_list:
  assumes pk: "distinct (map m_modul_id (modul db))"
    and fk: "\<forall>b \<in> set xs. \<exists>m \<in> set (modul db). m_modul_id m = mb_modul_id b"
  shows "map (\<lambda>(mb, m). (mb, m_ects m))
       [(mb, m). mb \<leftarrow> xs, m \<leftarrow> modul db, m_modul_id m = mb_modul_id mb, mb_studiengang_id mb = sg]
     = map (\<lambda>mb. (mb, credit_weight db (mb_modul_id mb))) (filter (\<lambda>mb. mb_studiengang_id mb = sg) xs)"
  using fk
proof (induction xs)
  case Nil then show ?case by simp
next
  case (Cons x xs)
  have fkx: "\<exists>m \<in> set (modul db). m_modul_id m = mb_modul_id x"
    using Cons.prems by simp
  have fkxs: "\<forall>b \<in> set xs. \<exists>m \<in> set (modul db). m_modul_id m = mb_modul_id b"
    using Cons.prems by simp
  note ih = Cons.IH[OF fkxs]
  have split: "[(mb, m). mb \<leftarrow> x # xs, m \<leftarrow> modul db, m_modul_id m = mb_modul_id mb, mb_studiengang_id mb = sg]
     = concat (map (\<lambda>m. if m_modul_id m = mb_modul_id x
                           then if mb_studiengang_id x = sg then [(x, m)] else [] else []) (modul db))
       @ [(mb, m). mb \<leftarrow> xs, m \<leftarrow> modul db, m_modul_id m = mb_modul_id mb, mb_studiengang_id mb = sg]"
    by simp
  have row: "map (\<lambda>(mb, m). (mb, m_ects m))
        (concat (map (\<lambda>m. if m_modul_id m = mb_modul_id x
                           then if mb_studiengang_id x = sg then [(x, m)] else [] else []) (modul db)))
      = (if mb_studiengang_id x = sg then [(x, credit_weight db (mb_modul_id x))] else [])"
  proof -
    have "map (\<lambda>(mb, m). (mb, m_ects m))
        (if mb_studiengang_id x = sg
         then map (Pair x) (filter (\<lambda>m. m_modul_id m = mb_modul_id x) (modul db)) else [])
      = (if mb_studiengang_id x = sg
         then map (\<lambda>m. (x, m_ects m)) (filter (\<lambda>m. m_modul_id m = mb_modul_id x) (modul db)) else [])"
      by (simp add: comp_def)
    then show ?thesis
      unfolding concat_map_if_nested join_row[OF pk fkx] .
  qed
  show ?case unfolding split map_append row ih by simp
qed

lemma join_ects:
  assumes "distinct (map m_modul_id (modul db))" "foreign_keys db"
  shows "map (\<lambda>(mb, m). (mb, m_ects m)) (join_modul db sg)
     = map (\<lambda>mb. (mb, credit_weight db (mb_modul_id mb)))
         (filter (\<lambda>mb. mb_studiengang_id mb = sg) (modul_belegung db))"
  unfolding join_modul_def using assms by (intro join_ects_list) (simp_all add: foreign_keys_def)


lemma ects_of_joined:
  "[f m. (mb, m) \<leftarrow> J, P mb]
     = map snd (filter (\<lambda>p. P (fst p)) (map (\<lambda>(mb, m). (mb, f m)) J))"
  by (induction J) auto

lemma map_filter_paired:
  "map h (filter Q (map (\<lambda>b. (b, c b)) xs)) = map (\<lambda>b. h (b, c b)) (filter (\<lambda>b. Q (b, c b)) xs)"
  by (induction xs) simp_all

lemma ects_completed_list:
  assumes "distinct (map m_modul_id (modul db))" "foreign_keys db"
  shows "[m_ects m. (mb, m) \<leftarrow> join_modul db sg, P mb]
     = map (\<lambda>b. credit_weight db (mb_modul_id b))
         (filter (\<lambda>b. mb_studiengang_id b = sg \<and> P b) (modul_belegung db))"
  unfolding ects_of_joined join_ects[OF assms]
  by (simp add: map_filter_paired conj_commute)

lemma weighted_of_joined:
  "[of_int (m_ects m) * g. (mb, m) \<leftarrow> filter (\<lambda>(mb, m). mb_ist_note mb \<noteq> None) J,
                            Some g \<leftarrow> [mb_ist_note mb]]
     = map (\<lambda>p. of_int (snd p) * grade (fst p))
         (filter (\<lambda>p. mb_ist_note (fst p) \<noteq> None) (map (\<lambda>(mb, m). (mb, m_ects m)) J))"
  by (induction J) (auto simp: grade_def)

lemma credits_of_graded:
  "[m_ects m. (mb, m) \<leftarrow> filter (\<lambda>(mb, m). mb_ist_note mb \<noteq> None) J]
     = map snd (filter (\<lambda>p. mb_ist_note (fst p) \<noteq> None) (map (\<lambda>(mb, m). (mb, m_ects m)) J))"
  by (induction J) auto

lemma ex_join_modul:
  "join_modul example_db 1 =
     [(attempt1, modul_math), (attempt_prog, modul_prog), (attempt2, modul_math)]"
  by (simp add: join_modul_def example_defs)

lemma ex_foreign_keys: "foreign_keys example_db"
  by (simp add: foreign_keys_def example_defs)

lemma ex_modul_keys: "distinct (map m_modul_id (modul example_db))"
  by (simp add: example_defs)


text \<open>
  Claim C6. \<^verbatim>\<open>sum_ects_completed\<close> is the sum of the module credit weights over the
  program's enrollments with a non-null actual completion date, a module counted once
  for each such enrollment, and is 0 for a program without enrollments.
\<close>

theorem sum_ects_completed_spec:
  assumes "distinct (map m_modul_id (modul db))" "foreign_keys db"
  shows "sum_ects_completed db sg = of_int (completed_credits db sg)
    \<and> ((\<forall>b \<in> set (modul_belegung db). mb_studiengang_id b \<noteq> sg) \<longrightarrow> sum_ects_completed db sg = 0)"
proof
  let ?L = "map (\<lambda>b. credit_weight db (mb_modul_id b))
         (filter (\<lambda>b. mb_studiengang_id b = sg \<and> mb_ist_bestanden_am b \<noteq> None) (modul_belegung db))"
  have "(case sql_sum ?L of None \<Rightarrow> 0 | Some e \<Rightarrow> e) = sum_list ?L"
    by (simp add: sql_sum_def)
  then show eq: "sum_ects_completed db sg = of_int (completed_credits db sg)"
    unfolding sum_ects_completed_def Let_def ects_completed_list[OF assms] completed_credits_def
    by simp
  show "(\<forall>b \<in> set (modul_belegung db). mb_studiengang_id b \<noteq> sg) \<longrightarrow> sum_ects_completed db sg = 0"
  proof
    assume "\<forall>b \<in> set (modul_belegung db). mb_studiengang_id b \<noteq> sg"
    then have "filter (\<lambda>b. mb_studiengang_id b = sg \<and> mb_ist_bestanden_am b \<noteq> None) (modul_belegung db) = []"
      by (simp add: filter_empty_conv)
    then show "sum_ects_completed db sg = 0" unfolding eq completed_credits_def by simp
  qed
qed

theorem sum_ects_completed_spec_witness:
  "distinct (map m_modul_id (modul example_db)) \<and> foreign_keys example_db
   \<and> sum_ects_completed example_db 1 = 20
   \<and> completed_credits example_db 1 = 20
   \<and> sum_ects_completed example_db 2 = 0
   \<and> sum_ects_completed example_db 3 = 0"
proof -
  have a: "sum_ects_completed example_db 1 = 20"
    unfolding sum_ects_completed_def ex_join_modul
    by (simp add: sql_sum_def example_defs)
  from sum_ects_completed_spec[OF ex_modul_keys ex_foreign_keys, of 1] a
  have b: "completed_credits example_db 1 = 20" by simp
  have c: "sum_ects_completed example_db 2 = 0"
    by (simp add: sum_ects_completed_def join_modul_def sql_sum_def example_defs)
  have d: "sum_ects_completed example_db 3 = 0"
    using sum_ects_completed_spec[OF ex_modul_keys ex_foreign_keys, of 3]
    by (simp add: example_defs)
  from a b c d ex_modul_keys ex_foreign_keys show ?thesis by simp
qed


text \<open>
  Claim C5. \<^verbatim>\<open>avg_grade_weighted\<close> is the sum of credit times grade divided by the sum
  of the credits, over the program's enrollments with a non-null actual grade, and None
  when there is no such enrollment or their credits sum to zero.
\<close>

theorem avg_grade_weighted_spec:
  assumes "distinct (map m_modul_id (modul db))" "foreign_keys db"
  shows "avg_grade_weighted db sg = credit_weighted_mean db sg"
proof -
  let ?G = "filter (\<lambda>b. mb_studiengang_id b = sg \<and> mb_ist_note b \<noteq> None) (modul_belegung db)"
  have w: "[of_int (m_ects m) * g. (mb, m) \<leftarrow> filter (\<lambda>(mb, m). mb_ist_note mb \<noteq> None) (join_modul db sg),
                            Some g \<leftarrow> [mb_ist_note mb]]
      = map (\<lambda>b. of_int (credit_weight db (mb_modul_id b)) * grade b) ?G"
    unfolding weighted_of_joined join_ects[OF assms]
    by (simp add: map_filter_paired conj_commute)
  have e: "[m_ects m. (mb, m) \<leftarrow> filter (\<lambda>(mb, m). mb_ist_note mb \<noteq> None) (join_modul db sg)]
      = map (\<lambda>b. credit_weight db (mb_modul_id b)) ?G"
    unfolding credits_of_graded join_ects[OF assms]
    by (simp add: map_filter_paired conj_commute)
  show ?thesis
    unfolding avg_grade_weighted_def credit_weighted_mean_def Let_def w e
    by (simp add: sql_sum_def)
qed


theorem avg_grade_weighted_spec_witness:
  "distinct (map m_modul_id (modul example_db)) \<and> foreign_keys example_db
   \<and> avg_grade_weighted example_db 1 = Some (33 / 20)
   \<and> credit_weighted_mean example_db 1 = Some (33 / 20)
   \<and> avg_grade_weighted example_db 3 = None"
proof -
  have a: "avg_grade_weighted example_db 1 = Some (33 / 20)"
    unfolding avg_grade_weighted_def ex_join_modul
    by (simp add: sql_sum_def example_defs del: not_None_eq)
  from avg_grade_weighted_spec[OF ex_modul_keys ex_foreign_keys, of 1] a
  have b: "credit_weighted_mean example_db 1 = Some (33 / 20)" by simp
  have c: "avg_grade_weighted example_db 3 = None"
    by (simp add: avg_grade_weighted_def join_modul_def sql_sum_def example_defs del: not_None_eq)
  from a b c ex_modul_keys ex_foreign_keys show ?thesis by simp
qed

section \<open>parse_date\<close>





section \<open>Two-digit years\<close>

text \<open>
  A text of the form day, dot, month, dot, two digits starts with at most two digits
  before the first dot, so the ISO format, which wants four, does not match it. The
  format \<^verbatim>\<open>%d.%m.%y\<close> matches it in exactly one way that reaches the end of the text:
  a day group that stops short of the dot cannot be continued.
\<close>

lemma digit_cases: "k < 10 \<Longrightarrow> k \<in> {0, 1, 2, 3, 4, 5, 6, 7, 8, 9::nat}"
  by (simp only: insert_iff empty_iff) arith

lemma of_char_digit: "k < 10 \<Longrightarrow> (of_char (digit_char k) :: nat) = 48 + k"
  by (drule digit_cases) (auto simp: digit_char_def)

lemma digit_not_space: "k < 10 \<Longrightarrow> \<not> is_space (digit_char k)"
  by (drule digit_cases) (auto simp: digit_char_def is_space_def)

lemma strip_no_space:
  assumes "s \<noteq> []" "\<not> is_space (hd s)" "\<not> is_space (last s)"
  shows "strip s = s"
proof -
  have a: "dropWhile is_space s = s" using assms(1,2) by (cases s) simp_all
  have "rev s \<noteq> []" "\<not> is_space (hd (rev s))" using assms(1,3) by (simp_all add: hd_rev)
  then have "dropWhile is_space (rev s) = rev s" by (cases "rev s") simp_all
  with a show ?thesis by (simp add: strip_def)
qed

lemma int_of_two: "a < 10 \<Longrightarrow> b < 10 \<Longrightarrow> int_of [digit_char a, digit_char b] = 10 * int a + int b"
  by (simp add: int_of_def strip_no_space digit_not_space of_char_digit)

lemma int_of_one: "a < 10 \<Longrightarrow> int_of [digit_char a] = int a"
  by (simp add: int_of_def strip_no_space digit_not_space of_char_digit)

lemma int_of_two_digits: "0 \<le> n \<Longrightarrow> n \<le> 99 \<Longrightarrow> int_of (two_digits n) = n"
proof -
  assume n: "0 \<le> n" "n \<le> 99"
  then have "nat (n div 10) < 10" "nat (n mod 10) < 10" by simp_all
  then have "int_of (two_digits n) = 10 * int (nat (n div 10)) + int (nat (n mod 10))"
    unfolding two_digits_def by (rule int_of_two)
  also have "\<dots> = n"
  proof -
    have "0 \<le> n div 10" "0 \<le> n mod 10" using n by simp_all
    then show ?thesis by simp
  qed
  finally show ?thesis .
qed

lemma int_of_written: "0 \<le> n \<Longrightarrow> n \<le> 99 \<Longrightarrow> written n t \<Longrightarrow> int_of t = n"
  unfolding written_def using int_of_two_digits int_of_one[of "nat n"] by auto


lemma day_cases:
  "1 \<le> (d::int) \<Longrightarrow> d \<le> 31 \<Longrightarrow>
   d = 1 \<or> d = 2 \<or> d = 3 \<or> d = 4 \<or> d = 5 \<or> d = 6 \<or> d = 7 \<or> d = 8 \<or> d = 9 \<or> d = 10 \<or>
   d = 11 \<or> d = 12 \<or> d = 13 \<or> d = 14 \<or> d = 15 \<or> d = 16 \<or> d = 17 \<or> d = 18 \<or> d = 19 \<or> d = 20 \<or>
   d = 21 \<or> d = 22 \<or> d = 23 \<or> d = 24 \<or> d = 25 \<or> d = 26 \<or> d = 27 \<or> d = 28 \<or> d = 29 \<or> d = 30 \<or>
   d = 31"
  by arith

lemma month_cases:
  "1 \<le> (m::int) \<Longrightarrow> m \<le> 12 \<Longrightarrow>
   m = 1 \<or> m = 2 \<or> m = 3 \<or> m = 4 \<or> m = 5 \<or> m = 6 \<or> m = 7 \<or> m = 8 \<or> m = 9 \<or> m = 10 \<or>
   m = 11 \<or> m = 12"
  by arith

lemma match_day:
  assumes "1 \<le> d" "d \<le> 31" "written d t"
  shows "rmatch (Seq (Group CHR ''d'' re_d) (Seq (Chr CHR ''.'') R)) (t @ CHR ''.'' # r)
     = map (lead (t @ ''.'') [(CHR ''d'', t)]) (rmatch R r)"
  using day_cases[OF assms(1,2)] assms(3)
  by (elim disjE)
     (auto simp: written_def two_digits_def digit_char_def re_d_def re_digit_def lead_def)

lemma match_month:
  assumes "1 \<le> m" "m \<le> 12" "written m t"
  shows "rmatch (Seq (Group CHR ''m'' re_m) (Seq (Chr CHR ''.'') R)) (t @ CHR ''.'' # r)
     = map (lead (t @ ''.'') [(CHR ''m'', t)]) (rmatch R r)"
  using month_cases[OF assms(1,2)] assms(3)
  by (elim disjE)
     (auto simp: written_def two_digits_def digit_char_def re_m_def lead_def)


lemma match_year:
  assumes "0 \<le> y" "y \<le> 99"
  shows "rmatch (Seq (Group CHR ''y'' re_y) Eps) (two_digits y)
     = [(two_digits y, [(CHR ''y'', two_digits y)], [])]"
proof -
  from assms have "nat (y div 10) < 10" "nat (y mod 10) < 10" by simp_all
  then show ?thesis
    by (simp add: two_digits_def re_y_def re_digit_def of_char_digit)
qed

lemma written_shape:
  assumes "0 \<le> n" "n \<le> 99" "written n t"
  shows "(\<exists>a b. a < 10 \<and> b < 10 \<and> t = [digit_char a, digit_char b])
     \<or> (\<exists>a. a < 10 \<and> t = [digit_char a])"
proof -
  from assms(1,2) have "nat (n div 10) < 10" "nat (n mod 10) < 10" by simp_all
  moreover have "n < 10 \<Longrightarrow> nat n < 10" by simp
  ultimately show ?thesis using assms(3) unfolding written_def two_digits_def by blast
qed

lemma no_iso_match:
  assumes "0 \<le> n" "n \<le> 99" "written n t"
  shows "rmatch (Seq (Group CHR ''Y'' re_Y) R) (t @ CHR ''.'' # r) = []"
  using written_shape[OF assms]
  by (auto simp: re_Y_def re_digit_def of_char_digit)

lemma pattern_iso:
  "pattern ''%Y-%m-%d'' =
     Some (Seq (Group CHR ''Y'' re_Y) (Seq (Chr CHR ''-'') (Seq (Group CHR ''m'' re_m)
          (Seq (Chr CHR ''-'') (Seq (Group CHR ''d'' re_d) Eps)))))"
  by (simp add: directive_def)

lemma pattern_short:
  "pattern ''%d.%m.%y'' =
     Some (Seq (Group CHR ''d'' re_d) (Seq (Chr CHR ''.'') (Seq (Group CHR ''m'' re_m)
          (Seq (Chr CHR ''.'') (Seq (Group CHR ''y'' re_y) Eps)))))"
  by (simp add: directive_def)


text \<open>
  Claim C9. A text of a day, a dot, a month, a dot and a two-digit year, day and month
  written with one or two digits, is parsed to the date with that day and month and the
  year 2000 + yy for yy up to 68 and 1900 + yy from 69 on, whenever that date exists:
  01.03.24 is 2024-03-01 and 01.03.70 is 1970-03-01.
\<close>

theorem parse_date_two_digit_year:
  assumes d: "written d td" and m: "written m tm" and y: "0 \<le> y" "y \<le> 99"
    and v: "valid_date \<lparr>year = (if y \<le> 68 then y + 2000 else y + 1900), month = m, day = d\<rparr>"
  shows "parse_date (td @ ''.'' @ tm @ ''.'' @ two_digits y)
     = Inr (Some \<lparr>year = (if y \<le> 68 then y + 2000 else y + 1900), month = m, day = d\<rparr>)"
proof -
  let ?t = "td @ ''.'' @ tm @ ''.'' @ two_digits y"
  let ?date = "\<lparr>year = (if y \<le> 68 then y + 2000 else y + 1900), month = m, day = d\<rparr>"
  from v have mr: "1 \<le> m" "m \<le> 12" and dr: "1 \<le> d" "d \<le> 31"
    by (auto simp: valid_date_def days_in_month_def split: if_splits)
  have d99: "0 \<le> d" "d \<le> 99" and m99: "0 \<le> m" "m \<le> 99" using dr mr by simp_all
  have shape: "?t = td @ CHR ''.'' # (tm @ CHR ''.'' # two_digits y)" by simp
  have ne: "?t \<noteq> []" by simp
  have hd_digit: "\<not> is_space (hd ?t)"
    using written_shape[OF d99 d] by (auto simp: digit_not_space)
  have "nat (y mod 10) < 10" using y by simp
  then have last_digit: "\<not> is_space (last ?t)"
    by (simp add: two_digits_def digit_not_space)
  have stripped: "strip ?t = ?t" using ne hd_digit last_digit by (rule strip_no_space)
  have "rmatch (Seq (Group CHR ''Y'' re_Y) (Seq (Chr CHR ''-'') (Seq (Group CHR ''m'' re_m)
          (Seq (Chr CHR ''-'') (Seq (Group CHR ''d'' re_d) Eps)))))
          (td @ CHR ''.'' # (tm @ CHR ''.'' # two_digits y)) = []"
    using d99 d by (rule no_iso_match)
  then have iso: "strptime ?t ''%Y-%m-%d'' = None"
    unfolding strptime_def pattern_iso shape by (simp only: option.case list.case)
  have found: "rmatch (Seq (Group CHR ''d'' re_d) (Seq (Chr CHR ''.'') (Seq (Group CHR ''m'' re_m)
          (Seq (Chr CHR ''.'') (Seq (Group CHR ''y'' re_y) Eps))))) ?t
       = [(?t, [(CHR ''d'', td), (CHR ''m'', tm), (CHR ''y'', two_digits y)], [])]"
    unfolding shape match_day[OF dr d] match_month[OF mr m] match_year[OF y]
    by (simp add: lead_def)
  have vals: "int_of td = d" "int_of tm = m" "int_of (two_digits y) = y"
    using int_of_written[OF d99 d] int_of_written[OF m99 m] int_of_two_digits[OF y]
    by simp_all
  have fields: "fold group_value [(CHR ''d'', td), (CHR ''m'', tm), (CHR ''y'', two_digits y)]
       \<lparr>year = 1900, month = 1, day = 1\<rparr> = ?date"
    by (simp add: group_value_def vals)
  have short: "strptime ?t ''%d.%m.%y'' = Some ?date"
    using v by (simp only: strptime_def pattern_short option.case found list.case prod.case
        fields Let_def simp_thms if_True if_False)
  show ?thesis
    unfolding parse_date_def Let_def stripped using ne iso short by simp
qed

theorem parse_date_two_digit_year_witness:
  "written 1 ''01'' \<and> written 3 ''03'' \<and> written 1 ''1'' \<and> written 3 ''3''
   \<and> valid_date \<lparr>year = 2024, month = 3, day = 1\<rparr> \<and> valid_date \<lparr>year = 1970, month = 3, day = 1\<rparr>
   \<and> parse_date ''01.03.24'' = Inr (Some \<lparr>year = 2024, month = 3, day = 1\<rparr>)
   \<and> parse_date ''01.03.70'' = Inr (Some \<lparr>year = 1970, month = 3, day = 1\<rparr>)
   \<and> parse_date ''1.3.68'' = Inr (Some \<lparr>year = 2068, month = 3, day = 1\<rparr>)
   \<and> parse_date ''1.3.69'' = Inr (Some \<lparr>year = 1969, month = 3, day = 1\<rparr>)"
proof -
  have w: "written 1 ''01''" "written 3 ''03''" "written 1 ''1''" "written 3 ''3''"
    by (simp_all add: written_def two_digits_def digit_char_def)
  have v: "valid_date \<lparr>year = 2024, month = 3, day = 1\<rparr>" "valid_date \<lparr>year = 1970, month = 3, day = 1\<rparr>"
    "valid_date \<lparr>year = 2068, month = 3, day = 1\<rparr>" "valid_date \<lparr>year = 1969, month = 3, day = 1\<rparr>"
    by (simp_all add: valid_date_def days_in_month_def)
  have t: "two_digits 24 = ''24''" "two_digits 70 = ''70''" "two_digits 68 = ''68''" "two_digits 69 = ''69''"
    by (simp_all add: two_digits_def digit_char_def)
  from parse_date_two_digit_year[of 1 "''01''" 3 "''03''" 24] w v t
  have a: "parse_date ''01.03.24'' = Inr (Some \<lparr>year = 2024, month = 3, day = 1\<rparr>)" by simp
  from parse_date_two_digit_year[of 1 "''01''" 3 "''03''" 70] w v t
  have b: "parse_date ''01.03.70'' = Inr (Some \<lparr>year = 1970, month = 3, day = 1\<rparr>)" by simp
  from parse_date_two_digit_year[of 1 "''1''" 3 "''3''" 68] w v t
  have c: "parse_date ''1.3.68'' = Inr (Some \<lparr>year = 2068, month = 3, day = 1\<rparr>)" by simp
  from parse_date_two_digit_year[of 1 "''1''" 3 "''3''" 69] w v t
  have d: "parse_date ''1.3.69'' = Inr (Some \<lparr>year = 1969, month = 3, day = 1\<rparr>)" by simp
  from w v a b c d show ?thesis by simp
qed

section \<open>Silent no-op of update and delete\<close>

text \<open>
  Claim C10. \<^verbatim>\<open>ModulBelegungRepository.update\<close> with an enrollment whose
  \<^verbatim>\<open>belegung_id\<close> is set but whose pair (studiengang_id, belegung_id) matches no stored
  row returns normally and leaves the database as it was; so does
  \<^verbatim>\<open>ModulBelegungRepository.delete\<close> with a composite key that matches no stored row.
\<close>

theorem update_delete_no_match_noop:
  "(belegung_id b = Some i \<and>
      (\<forall>r \<in> set (modul_belegung db).
         \<not> (mb_studiengang_id r = studiengang_id b \<and> mb_belegung_id r = i))
     \<longrightarrow> update db b = Inr db)
   \<and> ((\<forall>r \<in> set (modul_belegung db). \<not> (mb_studiengang_id r = sg \<and> mb_belegung_id r = j))
     \<longrightarrow> delete db sg j = db)"
proof (intro conjI impI)
  assume h: "belegung_id b = Some i \<and>
      (\<forall>r \<in> set (modul_belegung db).
         \<not> (mb_studiengang_id r = studiengang_id b \<and> mb_belegung_id r = i))"
  then have "map (\<lambda>r. if mb_studiengang_id r = studiengang_id b \<and> mb_belegung_id r = i
                          then update_set b r else r) (modul_belegung db) = modul_belegung db"
    by (intro map_idI) auto
  with h show "update db b = Inr db" by (simp add: update_def)
next
  assume "\<forall>r \<in> set (modul_belegung db). \<not> (mb_studiengang_id r = sg \<and> mb_belegung_id r = j)"
  then have "filter (\<lambda>r. \<not> (mb_studiengang_id r = sg \<and> mb_belegung_id r = j)) (modul_belegung db)
        = modul_belegung db"
    by (intro filter_True) auto
  then show "delete db sg j = db" by (simp add: delete_def)
qed

theorem update_delete_no_match_noop_witness:
  "belegung_id belegung_update = Some 2
   \<and> modul_belegung (empty_database\<lparr>modul_belegung := [belegung_a]\<rparr>) = [belegung_a]
   \<and> mb_belegung_id belegung_a = 1
   \<and> update (empty_database\<lparr>modul_belegung := [belegung_a]\<rparr>) belegung_update
       = Inr (empty_database\<lparr>modul_belegung := [belegung_a]\<rparr>)
   \<and> delete (empty_database\<lparr>modul_belegung := [belegung_a]\<rparr>) 1 2
       = empty_database\<lparr>modul_belegung := [belegung_a]\<rparr>"
  using update_delete_no_match_noop
    [of belegung_update 2 "empty_database\<lparr>modul_belegung := [belegung_a]\<rparr>" 1 2]
  by (simp add: belegung_update_def belegung_a_def empty_database_def)

end
